theory Spec2Isabelle
  imports Complex_Main
begin

section \<open>Hero CRT effect: the controller of \<^verbatim>\<open>assets/hero-crt-effect.js\<close>\<close>

text \<open>
  The development embeds the class \<^verbatim>\<open>HeroCRTEffect\<close> and the curvature warp of its
  fragment shader. A JavaScript Number is modelled as a \<^typ>\<open>real\<close>: arithmetic is exact,
  rounding is not modelled. The one place where the source can leave the finite numbers, the
  division by the container's width and height in the pointer handler, is a branch of its own.
  Objects the browser hands out (DOM nodes, the WebGL context, programs, textures) are
  handles; a field that is \<^verbatim>\<open>null\<close> or \<^verbatim>\<open>undefined\<close> is \<^term>\<open>None\<close>.
\<close>

subsection \<open>Data\<close>

type_synonym handle = nat

text \<open>\<^verbatim>\<open>getBoundingClientRect()\<close>: left, top, width, height.\<close>

record DOMRect =
  rect_left :: real
  rect_top :: real
  rect_width :: real
  rect_height :: real

record MouseEvent =
  clientX :: real
  clientY :: real

text \<open>
  One \<^verbatim>\<open>drawImage(el, x, y, w, h)\<close> that went through, and the 2D raster behind
  \<^verbatim>\<open>sourceCanvas\<close>: its size, the colour of the last \<^verbatim>\<open>fillRect\<close> over the whole
  raster, and the images drawn on top of it since, oldest first.
\<close>

record drawn =
  drawn_node :: handle
  drawn_x :: real
  drawn_y :: real
  drawn_w :: real
  drawn_h :: real

record raster =
  raster_width :: real
  raster_height :: real
  raster_fill :: string
  raster_images :: "drawn list"

text \<open>The fields of a \<^verbatim>\<open>HeroCRTEffect\<close>, in the order the constructor assigns them.\<close>

record controller =
  sectionId :: string
  canvas :: "handle option"
  container :: "handle option"
  gl :: "handle option"
  program :: "handle option"
  texture :: "handle option"
  sourceCanvas :: "raster option"
  sourceContext :: "handle option"
  animationFrameId :: "nat option"
  time :: real
  mouseX :: real
  mouseY :: real
  targetMouseX :: real
  targetMouseY :: real
  velocityX :: real
  velocityY :: real
  isHovering :: bool
  curvature :: real
  vignette :: real
  scanlineIntensity :: real
  chromaticAberration :: real
  mouseSensitivity :: real
  momentum :: real
  mouseMoveHandler_set :: bool
  mouseLeaveHandler_set :: bool

subsection \<open>Pointer tracking (\<^verbatim>\<open>setupMouseTracking\<close>)\<close>

text \<open>
  \<^verbatim>\<open>mouseMoveHandler\<close>, with the rectangle that \<^verbatim>\<open>getBoundingClientRect()\<close> returns as
  an argument. The handler sets the hover flag, zeroes the six pointer fields when the flag
  was clear, and then assigns the target from the event. A width or height of zero makes the
  quotient \<^verbatim>\<open>Infinity\<close> or \<^verbatim>\<open>NaN\<close> in JavaScript; that outcome has no real value and
  is \<^term>\<open>None\<close> here.
\<close>

definition mouseMoveHandler :: "controller \<Rightarrow> MouseEvent \<Rightarrow> DOMRect \<Rightarrow> controller option" where
  "mouseMoveHandler s e rect =
     (let wasHovering = isHovering s;
          s1 = s\<lparr>isHovering := True\<rparr>;
          s2 = (if \<not> wasHovering
                then s1\<lparr>targetMouseX := 0, targetMouseY := 0,
                        mouseX := 0, mouseY := 0,
                        velocityX := 0, velocityY := 0\<rparr>
                else s1)
      in if rect_width rect = 0 \<or> rect_height rect = 0 then None
         else
           let x = (clientX e - rect_left rect) / rect_width rect;
               y = (clientY e - rect_top rect) / rect_height rect
           in Some (s2\<lparr>targetMouseX := (x - 0.5) * mouseSensitivity s2,
                        targetMouseY := (y - 0.5) * mouseSensitivity s2\<rparr>))"

definition mouseLeaveHandler :: "controller \<Rightarrow> controller" where
  "mouseLeaveHandler s = s\<lparr>isHovering := False\<rparr>"

subsection \<open>The per-frame update (\<^verbatim>\<open>render\<close>)\<close>

text \<open>
  The values that successive calls of \<^verbatim>\<open>Math.random()\<close> return during one frame: the
  \<open>n\<close>-th call returns \<open>rnd\<^sub>n\<close>. A frame makes at most four calls.
\<close>

record draws =
  rnd1 :: real
  rnd2 :: real
  rnd3 :: real
  rnd4 :: real

text \<open>
  Lines 462 to 477: the idle branch. The first call decides the larger nudge; only when it
  is not taken does a second call decide the tiny one (\<^verbatim>\<open>else if\<close>).
\<close>

datatype glitch = NoGlitch | LargeGlitch | TinyGlitch

definition idleBranch :: "controller \<Rightarrow> draws \<Rightarrow> glitch" where
  "idleBranch s d =
     (if \<not> isHovering s then
        (if rnd1 d < 0.001 then LargeGlitch
         else if rnd2 d < 0.01 then TinyGlitch
         else NoGlitch)
      else NoGlitch)"

definition idleGlitch :: "controller \<Rightarrow> draws \<Rightarrow> controller" where
  "idleGlitch s d =
     (if \<not> isHovering s then
        (if rnd1 d < 0.001 then
           s\<lparr>velocityX := velocityX s + (rnd2 d - 0.5) * 0.002,
             velocityY := velocityY s + (rnd3 d - 0.5) * 0.002\<rparr>
         else if rnd2 d < 0.01 then
           s\<lparr>velocityX := velocityX s + (rnd3 d - 0.5) * 0.0005,
             velocityY := velocityY s + (rnd4 d - 0.5) * 0.0005\<rparr>
         else s)
      else s)"

text \<open>
  Lines 479 to 494 and 504: attraction towards the target, damping, the move of the smoothed
  offset, the time step.
\<close>

definition momentumStep :: "controller \<Rightarrow> controller" where
  "momentumStep s =
     (let deltaX = targetMouseX s - mouseX s;
          deltaY = targetMouseY s - mouseY s;
          attraction = (if isHovering s then 0.1 else 0.02);
          vx = (velocityX s + deltaX * attraction) * momentum s;
          vy = (velocityY s + deltaY * attraction) * momentum s
      in s\<lparr>velocityX := vx, velocityY := vy,
            mouseX := mouseX s + vx, mouseY := mouseY s + vy,
            time := time s + 0.016\<rparr>)"

text \<open>
  \<^verbatim>\<open>render\<close>: nothing happens without a context and a program; otherwise the pointer
  state is updated, the uniforms are uploaded and the quad is drawn (neither assigns a field),
  and the id that \<^verbatim>\<open>requestAnimationFrame\<close> returns is stored.
\<close>

definition render :: "controller \<Rightarrow> draws \<Rightarrow> nat \<Rightarrow> controller" where
  "render s d raf =
     (if gl s = None \<or> program s = None then s
      else (momentumStep (idleGlitch s d))\<lparr>animationFrameId := Some raf\<rparr>)"

subsection \<open>Runs of the pointer state\<close>

text \<open>
  What can happen to the pointer state between construction and teardown: a
  \<^verbatim>\<open>mousemove\<close> on the container, a \<^verbatim>\<open>mouseleave\<close>, or a frame.
\<close>

datatype event =
  MouseMove MouseEvent DOMRect
| MouseLeave
| Frame draws nat

fun step :: "controller \<Rightarrow> event \<Rightarrow> controller option" where
  "step s (MouseMove e rect) = mouseMoveHandler s e rect"
| "step s MouseLeave = Some (mouseLeaveHandler s)"
| "step s (Frame d raf) = Some (render s d raf)"

fun run :: "controller \<Rightarrow> event list \<Rightarrow> controller option" where
  "run s [] = Some s"
| "run s (ev # evs) = (case step s ev of None \<Rightarrow> None | Some s' \<Rightarrow> run s' evs)"

text \<open>
  The pointer is inside a container of positive size; \<^verbatim>\<open>Math.random()\<close> returns a
  number in \<open>[0, 1)\<close>.
\<close>

definition inside :: "MouseEvent \<Rightarrow> DOMRect \<Rightarrow> bool" where
  "inside e rect =
     (0 < rect_width rect \<and> 0 < rect_height rect \<and>
      rect_left rect \<le> clientX e \<and> clientX e \<le> rect_left rect + rect_width rect \<and>
      rect_top rect \<le> clientY e \<and> clientY e \<le> rect_top rect + rect_height rect)"

definition unit_draw :: "real \<Rightarrow> bool" where
  "unit_draw r = (0 \<le> r \<and> r < 1)"

definition unit_draws :: "draws \<Rightarrow> bool" where
  "unit_draws d = (unit_draw (rnd1 d) \<and> unit_draw (rnd2 d) \<and> unit_draw (rnd3 d) \<and> unit_draw (rnd4 d))"

fun host_event :: "event \<Rightarrow> bool" where
  "host_event (MouseMove e rect) = inside e rect"
| "host_event MouseLeave = True"
| "host_event (Frame d raf) = unit_draws d"

subsection \<open>Capture (\<^verbatim>\<open>captureContainer\<close>)\<close>

text \<open>An exception value: a property read on \<^verbatim>\<open>null\<close>, or a \<^verbatim>\<open>drawImage\<close> that fails.\<close>

datatype fault = TypeError | DrawError

text \<open>
  One element of \<^verbatim>\<open>querySelectorAll('img, video, canvas')\<close>: the node, the three
  computed style properties the source reads, its rectangle, and whether
  \<^verbatim>\<open>drawImage\<close> raises for it.
\<close>

record element =
  node :: handle
  display :: string
  visibility :: string
  opacity :: string
  el_rect :: DOMRect
  draw_throws :: bool

definition drawImage :: "raster \<Rightarrow> element \<Rightarrow> real \<Rightarrow> real \<Rightarrow> real \<Rightarrow> real \<Rightarrow> fault + raster" where
  "drawImage r el x y w h =
     (if draw_throws el then Inl DrawError
      else Inr (r\<lparr>raster_images := raster_images r @
                   [\<lparr>drawn_node = node el, drawn_x = x, drawn_y = y, drawn_w = w, drawn_h = h\<rparr>]\<rparr>))"

text \<open>The body of the \<^verbatim>\<open>try\<close> block, lines 435 to 444.\<close>

definition tryDraw :: "DOMRect \<Rightarrow> real \<Rightarrow> real \<Rightarrow> raster \<Rightarrow> element \<Rightarrow> fault + raster" where
  "tryDraw containerRect width height r el =
     (let rect = el_rect el;
          x = rect_left rect - rect_left containerRect;
          y = rect_top rect - rect_top containerRect;
          w = rect_width rect;
          h = rect_height rect
      in if x + w > 0 \<and> y + h > 0 \<and> x < width \<and> y < height
         then drawImage r el x y w h
         else Inr r)"

text \<open>The callback of \<^verbatim>\<open>forEach\<close>, lines 428 to 449, for the canvas \<^verbatim>\<open>this.canvas\<close>.\<close>

definition captureElement ::
  "handle option \<Rightarrow> DOMRect \<Rightarrow> real \<Rightarrow> real \<Rightarrow> raster \<Rightarrow> element \<Rightarrow> fault + raster" where
  "captureElement cv containerRect width height r el =
     (if Some (node el) = cv then Inr r
      else if display el \<noteq> ''none'' \<and> visibility el \<noteq> ''hidden'' \<and> opacity el \<noteq> ''0''
      then (case tryDraw containerRect width height r el of
              Inl e \<Rightarrow> Inr r
            | Inr r' \<Rightarrow> Inr r')
      else Inr r)"

text \<open>\<^verbatim>\<open>Array.prototype.forEach\<close>: an exception of the callback ends the loop.\<close>

fun forEach :: "('s \<Rightarrow> 'a \<Rightarrow> fault + 's) \<Rightarrow> 'a list \<Rightarrow> 's \<Rightarrow> fault + 's" where
  "forEach f [] r = Inr r"
| "forEach f (x # xs) r = (case f r x of Inl e \<Rightarrow> Inl e | Inr r' \<Rightarrow> forEach f xs r')"

text \<open>
  \<^verbatim>\<open>captureContainer\<close>, given the container's computed background colour, its
  rectangle and its media elements. \<^term>\<open>Inl\<close> is a rejected promise; \<^term>\<open>Inr\<close>
  carries the controller and the promise's value (\<^verbatim>\<open>null\<close> or the source canvas).
\<close>

definition captureContainer ::
  "controller \<Rightarrow> string \<Rightarrow> DOMRect \<Rightarrow> element list \<Rightarrow> fault + (controller \<times> raster option)" where
  "captureContainer s backgroundColor containerRect mediaElements =
     (if container s = None \<or> sourceContext s = None then Inr (s, None)
      else case sourceCanvas s of
        None \<Rightarrow> Inl TypeError
      | Some r \<Rightarrow>
          let width = raster_width r;
              height = raster_height r;
              fillStyle = (if backgroundColor \<noteq> '''' \<and> backgroundColor \<noteq> ''rgba(0, 0, 0, 0)''
                              \<and> backgroundColor \<noteq> ''transparent''
                           then backgroundColor else ''#000000'');
              r1 = r\<lparr>raster_fill := fillStyle, raster_images := []\<rparr>
          in (case (if mediaElements \<noteq> []
                    then forEach (captureElement (canvas s) containerRect width height) mediaElements r1
                    else Inr r1) of
                Inl e \<Rightarrow> Inl e
              | Inr r2 \<Rightarrow> Inr (s\<lparr>sourceCanvas := Some r2\<rparr>, Some r2)))"

text \<open>An element that \<^verbatim>\<open>captureContainer\<close> is to draw, and the record of its drawing.\<close>

definition captured :: "handle option \<Rightarrow> DOMRect \<Rightarrow> real \<Rightarrow> real \<Rightarrow> element \<Rightarrow> bool" where
  "captured cv containerRect width height el =
     (Some (node el) \<noteq> cv \<and>
      display el \<noteq> ''none'' \<and> visibility el \<noteq> ''hidden'' \<and> opacity el \<noteq> ''0'' \<and>
      rect_left (el_rect el) - rect_left containerRect + rect_width (el_rect el) > 0 \<and>
      rect_top (el_rect el) - rect_top containerRect + rect_height (el_rect el) > 0 \<and>
      rect_left (el_rect el) - rect_left containerRect < width \<and>
      rect_top (el_rect el) - rect_top containerRect < height \<and>
      \<not> draw_throws el)"

definition drawing :: "DOMRect \<Rightarrow> element \<Rightarrow> drawn" where
  "drawing containerRect el =
     \<lparr>drawn_node = node el,
      drawn_x = rect_left (el_rect el) - rect_left containerRect,
      drawn_y = rect_top (el_rect el) - rect_top containerRect,
      drawn_w = rect_width (el_rect el),
      drawn_h = rect_height (el_rect el)\<rparr>"

subsection \<open>Resize (\<^verbatim>\<open>resize\<close>, \<^verbatim>\<open>setupResize\<close>)\<close>

text \<open>
  The \<^verbatim>\<open>width\<close> and \<^verbatim>\<open>height\<close> of a canvas are unsigned longs that reflect a
  content attribute limited to non-negative numbers: an assigned number is truncated towards
  zero and reduced modulo \<open>2\<^sup>3\<^sup>2\<close>, and a result above \<open>2\<^sup>3\<^sup>1 - 1\<close> is replaced by the
  attribute's default.
\<close>

definition unsigned_long :: "real \<Rightarrow> int" where
  "unsigned_long x = (sgn \<lfloor>x\<rfloor> * \<lfloor>\<bar>x\<bar>\<rfloor>) mod 4294967296"

definition reflected :: "real \<Rightarrow> real \<Rightarrow> real" where
  "reflected dflt x =
     (if unsigned_long x \<le> 2147483647 then of_int (unsigned_long x) else dflt)"

text \<open>
  \<^verbatim>\<open>resize\<close>, given the container's rectangle. Assigning the size of a canvas clears it.
  The size of the output canvas is a property of the DOM node and the viewport one of the
  context; the controller holds neither.
\<close>

definition resize :: "controller \<Rightarrow> DOMRect \<Rightarrow> fault + controller" where
  "resize s rect =
     (if container s = None \<or> canvas s = None then Inr s
      else case sourceCanvas s of
        None \<Rightarrow> Inl TypeError
      | Some r \<Rightarrow>
          Inr (s\<lparr>sourceCanvas :=
                 Some \<lparr>raster_width = reflected 300 (rect_width rect),
                       raster_height = reflected 150 (rect_height rect),
                       raster_fill = '''', raster_images = []\<rparr>\<rparr>))"

text \<open>
  The timer's callback, lines 315 to 322: \<^verbatim>\<open>resize\<close>, then \<^verbatim>\<open>captureContainer\<close>,
  both with the container's rectangle at that moment. Its result is the controller it
  leaves and how the capture ended: an exception of \<^verbatim>\<open>resize\<close> ends the timer's task
  before the capture, one of the capture rejects its promise. The upload of the snapshot
  to the texture changes the context only.
\<close>

definition resizeCallback ::
  "controller \<Rightarrow> DOMRect \<Rightarrow> string \<Rightarrow> element list \<Rightarrow> controller \<times> (fault + raster option)" where
  "resizeCallback s rect backgroundColor mediaElements =
     (case resize s rect of
        Inl e \<Rightarrow> (s, Inl e)
      | Inr s1 \<Rightarrow>
          (case captureContainer s1 backgroundColor rect mediaElements of
             Inl e \<Rightarrow> (s1, Inl e)
           | Inr (s2, result) \<Rightarrow> (s2, Inr result)))"

text \<open>
  The raster that a re-capture is to leave for a controller whose output canvas is \<open>cv\<close>:
  the size of the container's rectangle, the background fill, and the drawings of the
  elements to capture.
\<close>

definition recaptured :: "handle option \<Rightarrow> DOMRect \<Rightarrow> string \<Rightarrow> element list \<Rightarrow> raster" where
  "recaptured cv rect backgroundColor mediaElements =
     \<lparr>raster_width = reflected 300 (rect_width rect),
      raster_height = reflected 150 (rect_height rect),
      raster_fill = (if backgroundColor \<noteq> '''' \<and> backgroundColor \<noteq> ''rgba(0, 0, 0, 0)''
                        \<and> backgroundColor \<noteq> ''transparent''
                     then backgroundColor else ''#000000''),
      raster_images = map (drawing rect)
        (filter (captured cv rect (reflected 300 (rect_width rect))
                   (reflected 150 (rect_height rect))) mediaElements)\<rparr>"

text \<open>
  What the page shows at a time (in milliseconds): the container's rectangle, its computed
  background colour and its media elements.
\<close>

type_synonym scene = "real \<Rightarrow> DOMRect \<times> string \<times> element list"

text \<open>
  A controller together with the closure of \<^verbatim>\<open>setupResize\<close> and the browser's timers:
  the variable \<^verbatim>\<open>resizeTimeout\<close> (a timer id, or \<^verbatim>\<open>undefined\<close>), the table of pending
  timers (id and the time at which it is due, in the order they were set), the number of
  ids handed out so far, and a log of the runs of the timer's callback: when it ran and how
  its capture ended.
\<close>

record resizing =
  effect :: controller
  resizeTimeout :: "nat option"
  timerTable :: "(nat \<times> real) list"
  timerCount :: nat
  recaptures :: "(real \<times> (fault + raster option)) list"

text \<open>
  \<^verbatim>\<open>setTimeout\<close> at time \<open>now\<close> enters a timer under a fresh id and returns the id;
  \<^verbatim>\<open>clearTimeout\<close> removes the timer of the given id, if it is still pending, and does
  nothing for \<^verbatim>\<open>undefined\<close>.
\<close>

definition setTimeout :: "real \<Rightarrow> real \<Rightarrow> resizing \<Rightarrow> nat \<times> resizing" where
  "setTimeout now delay st =
     (let i = Suc (timerCount st)
      in (i, st\<lparr>timerTable := timerTable st @ [(i, now + delay)], timerCount := i\<rparr>))"

definition clearTimeout :: "nat option \<Rightarrow> resizing \<Rightarrow> resizing" where
  "clearTimeout h st =
     (case h of
        None \<Rightarrow> st
      | Some i \<Rightarrow> st\<lparr>timerTable := filter (\<lambda>(j, due). j \<noteq> i) (timerTable st)\<rparr>)"

text \<open>\<^verbatim>\<open>resizeHandler\<close> at time \<open>now\<close>, lines 312 to 324.\<close>

definition resizeHandler :: "real \<Rightarrow> resizing \<Rightarrow> resizing" where
  "resizeHandler now st =
     (let st1 = clearTimeout (resizeTimeout st) st;
          (i, st2) = setTimeout now 100 st1
      in st2\<lparr>resizeTimeout := Some i\<rparr>)"

text \<open>
  A timer fires: it leaves the table and its callback runs on the page as it is at the
  time the timer is due. The callback does not assign \<^verbatim>\<open>resizeTimeout\<close>, which keeps the
  id of the timer that has run.
\<close>

definition fire :: "scene \<Rightarrow> nat \<times> real \<Rightarrow> resizing \<Rightarrow> resizing" where
  "fire view timer st =
     (let (i, due) = timer;
          (rect, backgroundColor, mediaElements) = view due;
          (s, outcome) = resizeCallback (effect st) rect backgroundColor mediaElements
      in st\<lparr>effect := s,
            timerTable := filter (\<lambda>(j, d). j \<noteq> i) (timerTable st),
            recaptures := recaptures st @ [(due, outcome)]\<rparr>)"

text \<open>
  The browser's timer task up to time \<open>now\<close>: every pending timer that is due by then
  fires, the earliest first, timers due at the same time in the order they were set.
\<close>

definition runTimers :: "scene \<Rightarrow> real \<Rightarrow> resizing \<Rightarrow> resizing" where
  "runTimers view now st =
     fold (fire view) (sort_key snd (filter (\<lambda>(i, due). due \<le> now) (timerTable st))) st"

text \<open>
  Resize events at the given times, oldest first (the window's \<^verbatim>\<open>resize\<close> event and the
  \<^verbatim>\<open>ResizeObserver\<close> share the handler): before each, the timers that are due have run.
\<close>

fun resizeEvents :: "scene \<Rightarrow> real list \<Rightarrow> resizing \<Rightarrow> resizing" where
  "resizeEvents view [] st = st"
| "resizeEvents view (t # ts) st = resizeEvents view ts (resizeHandler t (runTimers view t st))"

text \<open>A burst: the times ascend and all lie within less than 100 ms of the first.\<close>

fun ascending :: "real list \<Rightarrow> bool" where
  "ascending [] = True"
| "ascending [t] = True"
| "ascending (t # u # ts) = (t \<le> u \<and> ascending (u # ts))"

definition burst :: "real list \<Rightarrow> bool" where
  "burst ts = (ts \<noteq> [] \<and> ascending ts \<and> last ts < hd ts + 100)"

text \<open>
  No timer is pending, or the only one pending is the one that \<^verbatim>\<open>resizeTimeout\<close> names
  and it is due after \<open>t\<close>.
\<close>

definition armed_after :: "real \<Rightarrow> resizing \<Rightarrow> bool" where
  "armed_after t st =
     (timerTable st = [] \<or>
      (\<exists>i due. timerTable st = [(i, due)] \<and> resizeTimeout st = Some i \<and> t < due))"

text \<open>
  The handler as it would be without line 313: the old timer stays pending.
\<close>

definition resizeHandler_without_clear :: "real \<Rightarrow> resizing \<Rightarrow> resizing" where
  "resizeHandler_without_clear now st =
     (let (i, st2) = setTimeout now 100 st
      in st2\<lparr>resizeTimeout := Some i\<rparr>)"

subsection \<open>The curvature warp of the fragment shader\<close>

text \<open>A \<^verbatim>\<open>vec2\<close> and the operations on it that \<^verbatim>\<open>distort\<close> uses.\<close>

type_synonym vec2 = "real \<times> real"

definition vec2_sub :: "vec2 \<Rightarrow> vec2 \<Rightarrow> vec2" where
  "vec2_sub a b = (fst a - fst b, snd a - snd b)"

definition vec2_add :: "vec2 \<Rightarrow> vec2 \<Rightarrow> vec2" where
  "vec2_add a b = (fst a + fst b, snd a + snd b)"

definition vec2_scale :: "vec2 \<Rightarrow> real \<Rightarrow> vec2" where
  "vec2_scale a k = (fst a * k, snd a * k)"

definition vec2_length :: "vec2 \<Rightarrow> real" where
  "vec2_length a = sqrt (fst a * fst a + snd a * snd a)"

text \<open>\<^verbatim>\<open>distort\<close>, lines 35 to 41, for the uniform \<^verbatim>\<open>u_curvature\<close>.\<close>

definition distort :: "real \<Rightarrow> vec2 \<Rightarrow> vec2" where
  "distort u_curvature uv =
     (let center = (0.5, 0.5);
          coord = vec2_sub uv center;
          dist = vec2_length coord;
          factor = 1.0 + u_curvature * dist * dist
      in vec2_add center (vec2_scale coord factor))"

text \<open>The test of lines 76 and 77 in \<^verbatim>\<open>main\<close>: the fragment is painted black.\<close>

definition discarded :: "real \<Rightarrow> vec2 \<Rightarrow> bool" where
  "discarded u_curvature v_texCoord =
     (let distortedUV = distort u_curvature v_texCoord
      in fst distortedUV < 0.0 \<or> fst distortedUV > 1.0 \<or>
         snd distortedUV < 0.0 \<or> snd distortedUV > 1.0)"

subsection \<open>Construction (\<^verbatim>\<open>constructor\<close>, \<^verbatim>\<open>init\<close>, \<^verbatim>\<open>setupWebGL\<close>)\<close>

text \<open>
  What the browser holds on behalf of a controller: the animation frames requested and not
  yet run or cancelled, the pointer listeners registered (node and event type), and the
  programs and textures of the WebGL context that have not been deleted.
\<close>

record world =
  pendingFrames :: "nat set"
  pointerListeners :: "(handle \<times> string) set"
  programs :: "handle set"
  textures :: "handle set"

text \<open>
  What the browser answers while a controller is constructed: the two
  \<^verbatim>\<open>getElementById\<close> lookups, the WebGL context (of either name) and the 2D context,
  whether each shader compiles and the program links, the program and texture objects
  created, the container's rectangle, and the random numbers and the frame id of the first
  call of \<^verbatim>\<open>render\<close>.
\<close>

record host =
  host_canvas :: "handle option"
  host_container :: "handle option"
  host_webgl :: "handle option"
  host_context2d :: "handle option"
  host_vertex_compiles :: bool
  host_fragment_compiles :: bool
  host_links :: bool
  host_program :: handle
  host_texture :: handle
  host_rect :: DOMRect
  host_draws :: draws
  host_raf :: nat

text \<open>
  An object none of whose fields has been assigned. A number field that is
  \<^verbatim>\<open>undefined\<close> has no value; it reads 0 here, and no path reads it before the
  constructor assigns it.
\<close>

definition unassigned :: controller where
  "unassigned =
     \<lparr>sectionId = '''', canvas = None, container = None, gl = None, program = None,
      texture = None, sourceCanvas = None, sourceContext = None, animationFrameId = None,
      time = 0, mouseX = 0, mouseY = 0, targetMouseX = 0, targetMouseY = 0,
      velocityX = 0, velocityY = 0, isHovering = False,
      curvature = 0, vignette = 0, scanlineIntensity = 0, chromaticAberration = 0,
      mouseSensitivity = 0, momentum = 0,
      mouseMoveHandler_set = False, mouseLeaveHandler_set = False\<rparr>"

text \<open>
  \<^verbatim>\<open>setupWebGL\<close>: both shaders are created before either is tested; a shader that
  fails to compile, or a program that fails to link, is deleted and ends the setup.
\<close>

definition setupWebGL :: "controller \<Rightarrow> host \<Rightarrow> world \<Rightarrow> fault + (controller \<times> world)" where
  "setupWebGL s h w =
     (if \<not> host_vertex_compiles h \<or> \<not> host_fragment_compiles h then Inr (s, w)
      else if \<not> host_links h then Inr (s\<lparr>program := None\<rparr>, w)
      else
        let s1 = s\<lparr>program := Some (host_program h), texture := Some (host_texture h)\<rparr>;
            w1 = w\<lparr>programs := insert (host_program h) (programs w),
                   textures := insert (host_texture h) (textures w)\<rparr>
        in (case resize s1 (host_rect h) of
              Inl e \<Rightarrow> Inl e
            | Inr s2 \<Rightarrow> Inr (s2, w1)))"

text \<open>\<^verbatim>\<open>setupMouseTracking\<close>: the two listeners are registered and the handlers stored.\<close>

definition setupMouseTracking :: "controller \<Rightarrow> world \<Rightarrow> controller \<times> world" where
  "setupMouseTracking s w =
     (case container s of
        None \<Rightarrow> (s, w)
      | Some c \<Rightarrow>
          (s\<lparr>mouseMoveHandler_set := True, mouseLeaveHandler_set := True\<rparr>,
           w\<lparr>pointerListeners :=
                insert (c, ''mousemove'') (insert (c, ''mouseleave'') (pointerListeners w))\<rparr>))"

text \<open>
  \<^verbatim>\<open>init\<close>. The source canvas is created with the default size of a canvas, 300 by 150.
  The resize listeners and the timer of the initial capture belong to the window and are
  not part of \<^typ>\<open>world\<close>.
\<close>

definition init :: "controller \<Rightarrow> host \<Rightarrow> world \<Rightarrow> fault + (controller \<times> world)" where
  "init s h w =
     (if canvas s = None \<or> container s = None then Inr (s, w)
      else case host_webgl h of
        None \<Rightarrow> Inr (s, w)
      | Some g \<Rightarrow>
          let s1 = s\<lparr>gl := Some g,
                     sourceCanvas := Some \<lparr>raster_width = 300, raster_height = 150,
                                           raster_fill = '''', raster_images = []\<rparr>,
                     sourceContext := host_context2d h\<rparr>
          in (case setupWebGL s1 h w of
                Inl e \<Rightarrow> Inl e
              | Inr (s2, w2) \<Rightarrow>
                  let (s3, w3) = setupMouseTracking s2 w2;
                      s4 = render s3 (host_draws h) (host_raf h);
                      w4 = (if gl s3 = None \<or> program s3 = None then w3
                            else w3\<lparr>pendingFrames := insert (host_raf h) (pendingFrames w3)\<rparr>)
                  in Inr (s4, w4)))"

text \<open>\<^verbatim>\<open>new HeroCRTEffect(sectionId)\<close>.\<close>

definition constructor :: "string \<Rightarrow> host \<Rightarrow> world \<Rightarrow> fault + (controller \<times> world)" where
  "constructor sid h w =
     (let s0 = unassigned\<lparr>sectionId := sid, canvas := host_canvas h,
                           container := host_container h\<rparr>
      in if canvas s0 = None \<or> container s0 = None then Inr (s0, w)
         else
           init (s0\<lparr>gl := None, program := None, texture := None, sourceCanvas := None,
                     sourceContext := None, animationFrameId := None, time := 0,
                     mouseX := 0.0, mouseY := 0.0, targetMouseX := 0.0, targetMouseY := 0.0,
                     velocityX := 0.0, velocityY := 0.0, isHovering := False,
                     curvature := 0.12, vignette := 0.74, scanlineIntensity := 0.5,
                     chromaticAberration := 0.5, mouseSensitivity := 0.008,
                     momentum := 0.85\<rparr>) h w)"

subsection \<open>Teardown (\<^verbatim>\<open>destroy\<close>)\<close>

text \<open>
  The calls that \<^verbatim>\<open>destroy\<close> makes. A method called on \<^verbatim>\<open>null\<close> raises a
  \<^verbatim>\<open>TypeError\<close>. Cancelling a frame that is not pending, removing a listener that is not
  registered and deleting an object that is already deleted have no effect.
\<close>

definition cancelAnimationFrame :: "nat \<Rightarrow> world \<Rightarrow> world" where
  "cancelAnimationFrame n w = w\<lparr>pendingFrames := pendingFrames w - {n}\<rparr>"

definition removeEventListener :: "handle option \<Rightarrow> string \<Rightarrow> world \<Rightarrow> fault + world" where
  "removeEventListener receiver type w =
     (case receiver of
        None \<Rightarrow> Inl TypeError
      | Some c \<Rightarrow> Inr (w\<lparr>pointerListeners := pointerListeners w - {(c, type)}\<rparr>))"

definition deleteProgram :: "handle option \<Rightarrow> handle option \<Rightarrow> world \<Rightarrow> fault + world" where
  "deleteProgram receiver p w =
     (case receiver of
        None \<Rightarrow> Inl TypeError
      | Some g \<Rightarrow> (case p of None \<Rightarrow> Inr w | Some q \<Rightarrow> Inr (w\<lparr>programs := programs w - {q}\<rparr>)))"

definition deleteTexture :: "handle option \<Rightarrow> handle option \<Rightarrow> world \<Rightarrow> fault + world" where
  "deleteTexture receiver t w =
     (case receiver of
        None \<Rightarrow> Inl TypeError
      | Some g \<Rightarrow> (case t of None \<Rightarrow> Inr w | Some q \<Rightarrow> Inr (w\<lparr>textures := textures w - {q}\<rparr>)))"

text \<open>Sequencing: an exception ends the method.\<close>

definition and_then :: "fault + 'a \<Rightarrow> ('a \<Rightarrow> fault + 'b) \<Rightarrow> fault + 'b" where
  "and_then m f = (case m of Inl e \<Rightarrow> Inl e | Inr x \<Rightarrow> f x)"

text \<open>
  \<^verbatim>\<open>destroy\<close>, lines 538 to 556. A frame id is truthy unless it is \<^verbatim>\<open>null\<close>,
  \<^verbatim>\<open>undefined\<close> or 0. No field of the controller is assigned.
\<close>

definition destroy :: "controller \<Rightarrow> world \<Rightarrow> fault + world" where
  "destroy s w =
     and_then
       (Inr (case animationFrameId s of
               None \<Rightarrow> w
             | Some n \<Rightarrow> if n \<noteq> 0 then cancelAnimationFrame n w else w))
       (\<lambda>w1. and_then
          (if container s \<noteq> None \<and> mouseMoveHandler_set s
           then and_then (removeEventListener (container s) ''mousemove'' w1)
                  (removeEventListener (container s) ''mouseleave'')
           else Inr w1)
          (\<lambda>w2. and_then
             (if gl s \<noteq> None \<and> program s \<noteq> None
              then deleteProgram (gl s) (program s) w2
              else Inr w2)
             (\<lambda>w3. if texture s \<noteq> None \<and> gl s \<noteq> None
                    then deleteTexture (gl s) (texture s) w3
                    else Inr w3)))"

subsection \<open>A concrete controller\<close>

text \<open>
  A page on which everything succeeds: canvas 1 and container 2 exist, a context, a program
  and a texture are handed out, the container is 100 by 100 at the origin, and the first
  frame draws 0.5 four times.
\<close>

definition page_rect :: DOMRect where
  "page_rect = \<lparr>rect_left = 0, rect_top = 0, rect_width = 100, rect_height = 100\<rparr>"

definition calm :: draws where
  "calm = \<lparr>rnd1 = 0.5, rnd2 = 0.5, rnd3 = 0.5, rnd4 = 0.5\<rparr>"

definition page :: host where
  "page =
     \<lparr>host_canvas = Some 1, host_container = Some 2, host_webgl = Some 3,
      host_context2d = Some 4, host_vertex_compiles = True, host_fragment_compiles = True,
      host_links = True, host_program = 5, host_texture = 6, host_rect = page_rect,
      host_draws = calm, host_raf = 1\<rparr>"

definition nothing :: world where
  "nothing = \<lparr>pendingFrames = {}, pointerListeners = {}, programs = {}, textures = {}\<rparr>"

text \<open>The controller that \<^term>\<open>constructor\<close> returns on that page, and the browser's side of it.\<close>

definition hero :: controller where
  "hero =
     \<lparr>sectionId = ''hero'', canvas = Some 1, container = Some 2, gl = Some 3,
      program = Some 5, texture = Some 6,
      sourceCanvas = Some \<lparr>raster_width = 100, raster_height = 100,
                            raster_fill = '''', raster_images = []\<rparr>,
      sourceContext = Some 4, animationFrameId = Some 1,
      time = 0.016, mouseX = 0, mouseY = 0, targetMouseX = 0, targetMouseY = 0,
      velocityX = 0, velocityY = 0, isHovering = False,
      curvature = 0.12, vignette = 0.74, scanlineIntensity = 0.5, chromaticAberration = 0.5,
      mouseSensitivity = 0.008, momentum = 0.85,
      mouseMoveHandler_set = True, mouseLeaveHandler_set = True\<rparr>"

definition hero_world :: world where
  "hero_world =
     \<lparr>pendingFrames = {1}, pointerListeners = {(2, ''mousemove''), (2, ''mouseleave'')},
      programs = {5}, textures = {6}\<rparr>"

text \<open>Pointer positions on that page: the centre, and the middle of the right edge.\<close>

definition at_centre :: MouseEvent where
  "at_centre = \<lparr>clientX = 50, clientY = 50\<rparr>"

definition at_right_edge :: MouseEvent where
  "at_right_edge = \<lparr>clientX = 100, clientY = 50\<rparr>"

text \<open>The concrete controller while the pointer rests at the centre and the offset coasts.\<close>

definition coasting :: controller where
  "coasting = hero\<lparr>isHovering := True, velocityX := 0.001, velocityY := -0.002\<rparr>"



text \<open>
  Media elements in the concrete container: a photograph, an image whose drawing raises, the
  controller's own output canvas, a hidden video, an image to the right of the container,
  and a nested canvas.
\<close>

definition visible_at :: "handle \<Rightarrow> real \<Rightarrow> real \<Rightarrow> real \<Rightarrow> real \<Rightarrow> element" where
  "visible_at n x y w h =
     \<lparr>node = n, display = ''block'', visibility = ''visible'', opacity = ''1'',
      el_rect = \<lparr>rect_left = x, rect_top = y, rect_width = w, rect_height = h\<rparr>,
      draw_throws = False\<rparr>"

definition gallery :: "element list" where
  "gallery =
     [visible_at 10 5 5 40 30,
      (visible_at 11 50 5 40 30)\<lparr>draw_throws := True\<rparr>,
      visible_at 1 0 0 100 100,
      (visible_at 12 0 50 100 50)\<lparr>display := ''none''\<rparr>,
      visible_at 13 100 0 40 30,
      visible_at 14 60 60 30 30]"

text \<open>Pages on which construction stops early.\<close>

definition page_without_canvas :: host where
  "page_without_canvas = page\<lparr>host_canvas := None\<rparr>"

definition page_without_webgl :: host where
  "page_without_webgl = page\<lparr>host_webgl := None\<rparr>"

definition page_with_broken_shader :: host where
  "page_with_broken_shader = page\<lparr>host_fragment_compiles := False\<rparr>"

definition page_with_broken_link :: host where
  "page_with_broken_link = page\<lparr>host_links := False\<rparr>"

text \<open>What a capture of the gallery over a background of \<^verbatim>\<open>rgb(10, 20, 30)\<close> leaves.\<close>

definition snapshot :: raster where
  "snapshot =
     \<lparr>raster_width = 100, raster_height = 100, raster_fill = ''rgb(10, 20, 30)'',
      raster_images =
        [\<lparr>drawn_node = 10, drawn_x = 5, drawn_y = 5, drawn_w = 40, drawn_h = 30\<rparr>,
         \<lparr>drawn_node = 14, drawn_x = 60, drawn_y = 60, drawn_w = 30, drawn_h = 30\<rparr>]\<rparr>"

text \<open>
  The concrete controller with no timer pending, four resize events within 99 ms, and a
  page whose container grows from 100 to 200 pixels in width during the burst, which brings
  the image to the right of it into view.
\<close>

definition still :: resizing where
  "still = \<lparr>effect = hero, resizeTimeout = None, timerTable = [], timerCount = 0,
            recaptures = []\<rparr>"

definition flurry :: "real list" where
  "flurry = [1000, 1030, 1030, 1099]"

definition wide_rect :: DOMRect where
  "wide_rect = \<lparr>rect_left = 0, rect_top = 0, rect_width = 200, rect_height = 100\<rparr>"

definition stretching :: scene where
  "stretching t =
     (if t < 1050 then (page_rect, ''rgb(10, 20, 30)'', gallery)
      else (wide_rect, ''rgb(10, 20, 30)'', gallery))"

definition wide_snapshot :: raster where
  "wide_snapshot =
     \<lparr>raster_width = 200, raster_height = 100, raster_fill = ''rgb(10, 20, 30)'',
      raster_images =
        [\<lparr>drawn_node = 10, drawn_x = 5, drawn_y = 5, drawn_w = 40, drawn_h = 30\<rparr>,
         \<lparr>drawn_node = 13, drawn_x = 100, drawn_y = 0, drawn_w = 40, drawn_h = 30\<rparr>,
         \<lparr>drawn_node = 14, drawn_x = 60, drawn_y = 60, drawn_w = 30, drawn_h = 30\<rparr>]\<rparr>"

subsection \<open>Measures of the pointer state\<close>

text \<open>
  Two quadratic measures of the velocity \<open>v\<close> and the smoothed offset \<open>m\<close> of one axis,
  one for frames with the pointer over the container and one for idle frames, and the
  level that each stays below. They serve the proof that the pointer state is bounded.
\<close>

definition energy :: "bool \<Rightarrow> real \<Rightarrow> real \<Rightarrow> real" where
  "energy hovering v m =
     (if hovering then 100 * v\<^sup>2 + 8 * v * m + 10 * m\<^sup>2
      else 100 * v\<^sup>2 + 16 * v * m + 2 * m\<^sup>2)"

definition budget :: "bool \<Rightarrow> real" where
  "budget hovering = (if hovering then 13 / 2500 else 19 / 500)"

text \<open>
  The state a controller has when the constructor has assigned its fields, as far as the
  pointer is concerned, and the property that every later state keeps.
\<close>

definition at_rest :: "controller \<Rightarrow> bool" where
  "at_rest s =
     (\<not> isHovering s \<and> mouseX s = 0 \<and> mouseY s = 0 \<and>
      targetMouseX s = 0 \<and> targetMouseY s = 0 \<and> velocityX s = 0 \<and> velocityY s = 0 \<and>
      mouseSensitivity s = 0.008 \<and> momentum s = 0.85)"

definition settled :: "controller \<Rightarrow> bool" where
  "settled s =
     (mouseSensitivity s = 0.008 \<and> momentum s = 0.85 \<and>
      \<bar>targetMouseX s\<bar> \<le> 0.004 \<and> \<bar>targetMouseY s\<bar> \<le> 0.004 \<and>
      energy (isHovering s) (velocityX s) (mouseX s) \<le> budget (isHovering s) \<and>
      energy (isHovering s) (velocityY s) (mouseY s) \<le> budget (isHovering s))"

text \<open>A re-entry at the right edge of the concrete page, and the six frames after it.\<close>

definition swing :: "event list" where
  "swing =
     [MouseMove at_right_edge page_rect,
      Frame calm 2, Frame calm 3, Frame calm 4, Frame calm 5, Frame calm 6, Frame calm 7]"

text \<open>The state those seven events lead to from the concrete controller.\<close>

definition swung :: controller where
  "swung =
     hero\<lparr>isHovering := True, targetMouseX := 0.004,
          mouseX := 66755538820281 / 16000000000000000,
          velocityX := 12293521864881 / 16000000000000000,
          time := 0.112, animationFrameId := Some 7\<rparr>"

text \<open>
  A pointer that enters at the left edge, rests there for eleven frames, and jumps to the
  right edge for ten more.
\<close>

definition at_left_edge :: MouseEvent where
  "at_left_edge = \<lparr>clientX = 0, clientY = 50\<rparr>"

definition sweep :: "event list" where
  "sweep =
     MouseMove at_left_edge page_rect # replicate 11 (Frame calm 2) @
     MouseMove at_right_edge page_rect # replicate 10 (Frame calm 2)"

section \<open>Properties\<close>

subsection \<open>The concrete controller\<close>

lemma constructor_page: "constructor ''hero'' page nothing = Inr (hero, hero_world)"
  by (simp add: constructor_def init_def page_def nothing_def hero_def hero_world_def
      unassigned_def setupWebGL_def resize_def setupMouseTracking_def render_def
      idleGlitch_def momentumStep_def calm_def page_rect_def reflected_def unsigned_long_def
      Let_def insert_commute)

subsection \<open>Pointer re-entry\<close>

text \<open>
  Claim C1, as stated, asks for the target offset to be zero as well when the first frame
  after a re-entry begins. The handler zeroes the target and then assigns it from the event
  in the same call: on the concrete page, after the pointer has left, a re-entry at the right
  edge leaves the target at 0.004.
\<close>

theorem reentry_target_counterexample:
  "\<not> isHovering (mouseLeaveHandler coasting) \<and>
   map_option targetMouseX
     (mouseMoveHandler (mouseLeaveHandler coasting) at_right_edge page_rect) = Some 0.004 \<and>
   (0.004 :: real) \<noteq> 0"
  by (simp add: mouseMoveHandler_def mouseLeaveHandler_def coasting_def hero_def
      at_right_edge_def page_rect_def Let_def)

text \<open>
  Claim C1, amended. A \<^verbatim>\<open>mousemove\<close> that finds the hover flag clear (the pointer had
  left, or never entered) sets the flag and leaves the smoothed offset and the velocity at
  exactly zero; the target offset is the one computed from the event. This is the state in
  which the first frame after the re-entry starts.
\<close>

theorem reentry_offset_velocity_zero:
  assumes "\<not> isHovering s" and "rect_width rect \<noteq> 0" and "rect_height rect \<noteq> 0"
  shows "\<exists>s'. mouseMoveHandler s e rect = Some s' \<and> isHovering s' \<and>
           mouseX s' = 0 \<and> mouseY s' = 0 \<and> velocityX s' = 0 \<and> velocityY s' = 0 \<and>
           targetMouseX s' =
             ((clientX e - rect_left rect) / rect_width rect - 0.5) * mouseSensitivity s \<and>
           targetMouseY s' =
             ((clientY e - rect_top rect) / rect_height rect - 0.5) * mouseSensitivity s"
  using assms by (simp add: mouseMoveHandler_def Let_def)

theorem reentry_offset_velocity_zero_witness:
  "\<not> isHovering (mouseLeaveHandler coasting) \<and>
   velocityX (mouseLeaveHandler coasting) = 0.001 \<and>
   rect_width page_rect \<noteq> 0 \<and> rect_height page_rect \<noteq> 0 \<and>
   (\<exists>s'. mouseMoveHandler (mouseLeaveHandler coasting) at_right_edge page_rect = Some s' \<and>
      isHovering s' \<and>
      mouseX s' = 0 \<and> mouseY s' = 0 \<and> velocityX s' = 0 \<and> velocityY s' = 0 \<and>
      targetMouseX s' = 0.004 \<and> targetMouseY s' = 0)"
proof -
  have h: "\<not> isHovering (mouseLeaveHandler coasting)"
    and v: "velocityX (mouseLeaveHandler coasting) = 0.001"
    and m: "mouseSensitivity (mouseLeaveHandler coasting) = 0.008"
    by (simp_all add: mouseLeaveHandler_def coasting_def hero_def)
  have w: "rect_width page_rect \<noteq> 0" and g: "rect_height page_rect \<noteq> 0"
    by (simp_all add: page_rect_def)
  from reentry_offset_velocity_zero [OF h w g, of at_right_edge]
  show ?thesis
    using h v w g by (simp add: m at_right_edge_def page_rect_def)
qed

subsection \<open>The target offset\<close>

text \<open>
  Claim C2. For a pointer inside the container, the handler stores as target offset the
  pointer position normalised to 0..1 on each axis, minus 0.5, times
  \<^verbatim>\<open>mouseSensitivity\<close>. Its magnitude is the distance from the centre times the
  sensitivity, at most half the sensitivity (reached at the edges), and it is (0, 0) at the
  exact centre.
\<close>

theorem target_offset_of_pointer:
  assumes "inside e rect"
  shows "\<exists>s'. mouseMoveHandler s e rect = Some s' \<and>
           (let x = (clientX e - rect_left rect) / rect_width rect;
                y = (clientY e - rect_top rect) / rect_height rect
            in 0 \<le> x \<and> x \<le> 1 \<and> 0 \<le> y \<and> y \<le> 1 \<and>
               targetMouseX s' = (x - 0.5) * mouseSensitivity s \<and>
               targetMouseY s' = (y - 0.5) * mouseSensitivity s \<and>
               \<bar>targetMouseX s'\<bar> = \<bar>x - 0.5\<bar> * \<bar>mouseSensitivity s\<bar> \<and>
               \<bar>targetMouseY s'\<bar> = \<bar>y - 0.5\<bar> * \<bar>mouseSensitivity s\<bar> \<and>
               \<bar>targetMouseX s'\<bar> \<le> 0.5 * \<bar>mouseSensitivity s\<bar> \<and>
               \<bar>targetMouseY s'\<bar> \<le> 0.5 * \<bar>mouseSensitivity s\<bar> \<and>
               (x = 0.5 \<and> y = 0.5 \<longrightarrow> targetMouseX s' = 0 \<and> targetMouseY s' = 0))"
proof -
  define x where "x = (clientX e - rect_left rect) / rect_width rect"
  define y where "y = (clientY e - rect_top rect) / rect_height rect"
  from assms have pos: "0 < rect_width rect" "0 < rect_height rect"
    and inx: "rect_left rect \<le> clientX e" "clientX e \<le> rect_left rect + rect_width rect"
    and iny: "rect_top rect \<le> clientY e" "clientY e \<le> rect_top rect + rect_height rect"
    by (simp_all add: inside_def)
  have x01: "0 \<le> x" "x \<le> 1"
    using pos inx by (simp_all add: x_def field_simps)
  have y01: "0 \<le> y" "y \<le> 1"
    using pos iny by (simp_all add: y_def field_simps)
  have ax: "\<bar>x - 0.5\<bar> \<le> 0.5" and ay: "\<bar>y - 0.5\<bar> \<le> 0.5"
    using x01 y01 by linarith+
  have bx: "\<bar>x - 0.5\<bar> * \<bar>mouseSensitivity s\<bar> \<le> 0.5 * \<bar>mouseSensitivity s\<bar>"
    using ax by (rule mult_right_mono) simp
  have "by": "\<bar>y - 0.5\<bar> * \<bar>mouseSensitivity s\<bar> \<le> 0.5 * \<bar>mouseSensitivity s\<bar>"
    using ay by (rule mult_right_mono) simp
  show ?thesis
    using pos x01 y01 bx "by"
    by (simp add: mouseMoveHandler_def Let_def x_def [symmetric] y_def [symmetric] abs_mult)
qed

theorem target_offset_of_pointer_witness:
  "inside at_centre page_rect \<and>
   (\<exists>s'. mouseMoveHandler hero at_centre page_rect = Some s' \<and>
      targetMouseX s' = 0 \<and> targetMouseY s' = 0)"
proof -
  have h: "inside at_centre page_rect"
    by (simp add: inside_def at_centre_def page_rect_def)
  from target_offset_of_pointer [OF h, of hero]
  show ?thesis
    using h by (auto simp: at_centre_def page_rect_def Let_def)
qed

subsection \<open>The frame update\<close>

lemma idleGlitch_NoGlitch: "idleBranch s d = NoGlitch \<Longrightarrow> idleGlitch s d = s"
  by (cases "isHovering s"; cases "rnd1 d < 0.001"; cases "rnd2 d < 0.01")
     (simp_all add: idleBranch_def idleGlitch_def)

lemma render_runs:
  assumes "gl s \<noteq> None" and "program s \<noteq> None"
  shows "render s d raf = (momentumStep (idleGlitch s d))\<lparr>animationFrameId := Some raf\<rparr>"
  using assms by (cases "gl s"; cases "program s") (simp_all add: render_def)

lemma isHovering_idleGlitch: "isHovering (idleGlitch s d) = isHovering s"
  and momentum_idleGlitch: "momentum (idleGlitch s d) = momentum s"
  and targetMouseX_idleGlitch: "targetMouseX (idleGlitch s d) = targetMouseX s"
  and targetMouseY_idleGlitch: "targetMouseY (idleGlitch s d) = targetMouseY s"
  and mouseX_idleGlitch: "mouseX (idleGlitch s d) = mouseX s"
  and mouseY_idleGlitch: "mouseY (idleGlitch s d) = mouseY s"
  by (simp_all add: idleGlitch_def)

lemmas idleGlitch_keeps = isHovering_idleGlitch momentum_idleGlitch targetMouseX_idleGlitch
  targetMouseY_idleGlitch mouseX_idleGlitch mouseY_idleGlitch

lemma render_velocityX:
  assumes "gl s \<noteq> None" and "program s \<noteq> None"
  shows "velocityX (render s d raf) =
     (velocityX (idleGlitch s d)
        + (targetMouseX s - mouseX s) * (if isHovering s then 0.1 else 0.02)) * momentum s"
  by (simp add: render_runs [OF assms] momentumStep_def Let_def idleGlitch_keeps)

lemma render_velocityY:
  assumes "gl s \<noteq> None" and "program s \<noteq> None"
  shows "velocityY (render s d raf) =
     (velocityY (idleGlitch s d)
        + (targetMouseY s - mouseY s) * (if isHovering s then 0.1 else 0.02)) * momentum s"
  by (simp add: render_runs [OF assms] momentumStep_def Let_def idleGlitch_keeps)

lemma render_mouseX:
  assumes "gl s \<noteq> None" and "program s \<noteq> None"
  shows "mouseX (render s d raf) = mouseX s + velocityX (render s d raf)"
  by (simp add: render_runs [OF assms] momentumStep_def Let_def idleGlitch_keeps)

lemma render_mouseY:
  assumes "gl s \<noteq> None" and "program s \<noteq> None"
  shows "mouseY (render s d raf) = mouseY s + velocityY (render s d raf)"
  by (simp add: render_runs [OF assms] momentumStep_def Let_def idleGlitch_keeps)

lemma damping_shrinks:
  fixes v m :: real
  assumes "0 \<le> m" and "m < 1"
  shows "\<bar>v * m\<bar> \<le> \<bar>v\<bar>" and "v \<noteq> 0 \<Longrightarrow> \<bar>v * m\<bar> < \<bar>v\<bar>"
proof -
  have "\<bar>v\<bar> * m \<le> \<bar>v\<bar> * 1"
    using assms by (intro mult_left_mono) simp_all
  then show "\<bar>v * m\<bar> \<le> \<bar>v\<bar>" using assms by (simp add: abs_mult)
next
  assume "v \<noteq> 0"
  then have "\<bar>v\<bar> * m < \<bar>v\<bar> * 1"
    using assms by (intro mult_strict_left_mono) simp_all
  then show "\<bar>v * m\<bar> < \<bar>v\<bar>" using assms by (simp add: abs_mult)
qed

text \<open>
  Claim C3. In every frame that \<^verbatim>\<open>render\<close> carries out (context and program present),
  hovering or not, the new velocity is the old one, after the idle nudge and the attraction
  towards the target, times the momentum factor. With a momentum factor in \<open>[0, 1)\<close> (the
  constructor sets 0.85), a frame with zero delta on both axes and no idle nudge multiplies
  the velocity by the factor, so its magnitude on each axis does not grow, and shrinks
  unless it is already zero.
\<close>

theorem velocity_damped_every_frame:
  assumes "gl s \<noteq> None" and "program s \<noteq> None"
    and "0 \<le> momentum s" and "momentum s < 1"
  shows "velocityX (render s d raf) =
           (velocityX (idleGlitch s d)
              + (targetMouseX s - mouseX s) * (if isHovering s then 0.1 else 0.02)) * momentum s \<and>
         velocityY (render s d raf) =
           (velocityY (idleGlitch s d)
              + (targetMouseY s - mouseY s) * (if isHovering s then 0.1 else 0.02)) * momentum s \<and>
         (targetMouseX s = mouseX s \<and> targetMouseY s = mouseY s \<and> idleBranch s d = NoGlitch \<longrightarrow>
            velocityX (render s d raf) = velocityX s * momentum s \<and>
            velocityY (render s d raf) = velocityY s * momentum s \<and>
            \<bar>velocityX (render s d raf)\<bar> \<le> \<bar>velocityX s\<bar> \<and>
            \<bar>velocityY (render s d raf)\<bar> \<le> \<bar>velocityY s\<bar> \<and>
            (velocityX s \<noteq> 0 \<longrightarrow> \<bar>velocityX (render s d raf)\<bar> < \<bar>velocityX s\<bar>) \<and>
            (velocityY s \<noteq> 0 \<longrightarrow> \<bar>velocityY (render s d raf)\<bar> < \<bar>velocityY s\<bar>))"
proof (intro conjI impI)
  show "velocityX (render s d raf) =
           (velocityX (idleGlitch s d)
              + (targetMouseX s - mouseX s) * (if isHovering s then 0.1 else 0.02)) * momentum s"
    using assms(1,2) by (rule render_velocityX)
  show "velocityY (render s d raf) =
           (velocityY (idleGlitch s d)
              + (targetMouseY s - mouseY s) * (if isHovering s then 0.1 else 0.02)) * momentum s"
    using assms(1,2) by (rule render_velocityY)
next
  assume rest: "targetMouseX s = mouseX s \<and> targetMouseY s = mouseY s \<and> idleBranch s d = NoGlitch"
  then have same: "idleGlitch s d = s" by (simp add: idleGlitch_NoGlitch)
  show x: "velocityX (render s d raf) = velocityX s * momentum s"
    using rest by (simp add: render_velocityX [OF assms(1,2)] same)
  show y: "velocityY (render s d raf) = velocityY s * momentum s"
    using rest by (simp add: render_velocityY [OF assms(1,2)] same)
  show "\<bar>velocityX (render s d raf)\<bar> \<le> \<bar>velocityX s\<bar>"
    unfolding x using assms(3,4) by (rule damping_shrinks)
  show "\<bar>velocityY (render s d raf)\<bar> \<le> \<bar>velocityY s\<bar>"
    unfolding y using assms(3,4) by (rule damping_shrinks)
  show "\<bar>velocityX (render s d raf)\<bar> < \<bar>velocityX s\<bar>" if "velocityX s \<noteq> 0"
    unfolding x using assms(3,4) that by (rule damping_shrinks)
  show "\<bar>velocityY (render s d raf)\<bar> < \<bar>velocityY s\<bar>" if "velocityY s \<noteq> 0"
    unfolding y using assms(3,4) that by (rule damping_shrinks)
qed

theorem velocity_damped_every_frame_witness:
  "gl coasting \<noteq> None \<and> program coasting \<noteq> None \<and>
   0 \<le> momentum coasting \<and> momentum coasting < 1 \<and>
   targetMouseX coasting = mouseX coasting \<and> targetMouseY coasting = mouseY coasting \<and>
   idleBranch coasting calm = NoGlitch \<and> velocityX coasting \<noteq> 0 \<and> velocityY coasting \<noteq> 0 \<and>
   velocityX (render coasting calm 2) = 0.00085 \<and>
   velocityY (render coasting calm 2) = - 0.0017 \<and>
   \<bar>velocityX (render coasting calm 2)\<bar> < \<bar>velocityX coasting\<bar> \<and>
   \<bar>velocityY (render coasting calm 2)\<bar> < \<bar>velocityY coasting\<bar>"
proof -
  have a: "gl coasting \<noteq> None" and b: "program coasting \<noteq> None"
    and c: "0 \<le> momentum coasting" and e: "momentum coasting < 1"
    by (simp_all add: coasting_def hero_def)
  have f: "targetMouseX coasting = mouseX coasting \<and> targetMouseY coasting = mouseY coasting \<and>
      idleBranch coasting calm = NoGlitch"
    by (simp add: coasting_def hero_def idleBranch_def)
  have v: "velocityX coasting = 0.001" "velocityY coasting = - 0.002" "momentum coasting = 0.85"
    by (simp_all add: coasting_def hero_def)
  from velocity_damped_every_frame [OF a b c e, of calm 2] f
  have "velocityX (render coasting calm 2) = velocityX coasting * momentum coasting \<and>
        velocityY (render coasting calm 2) = velocityY coasting * momentum coasting"
    by blast
  then show ?thesis
    using a b c e f by (simp add: v)
qed

subsection \<open>The idle glitch\<close>




subsection \<open>The curvature warp\<close>

text \<open>
  Claim C8. For every curvature the warp maps the texture coordinate (0.5, 0.5) to itself,
  which lies in the unit square: the fragment at the exact centre is never painted black by
  the out-of-range branch.
\<close>

theorem warp_keeps_centre:
  "distort u_curvature (0.5, 0.5) = (0.5, 0.5) \<and> \<not> discarded u_curvature (0.5, 0.5)"
  by (simp add: distort_def discarded_def vec2_sub_def vec2_add_def vec2_scale_def
      vec2_length_def Let_def)

subsection \<open>Capture\<close>

lemma captureElement_step:
  "captureElement cv crect w h r el =
     Inr (if captured cv crect w h el
          then r\<lparr>raster_images := raster_images r @ [drawing crect el]\<rparr> else r)"
  by (simp add: captureElement_def tryDraw_def drawImage_def captured_def drawing_def Let_def)

lemma forEach_captureElement:
  "forEach (captureElement cv crect w h) els r =
     Inr (r\<lparr>raster_images :=
             raster_images r @ map (drawing crect) (filter (captured cv crect w h) els)\<rparr>)"
proof -
  define f where "f = captureElement cv crect w h"
  have step: "f r el =
      Inr (if captured cv crect w h el
           then r\<lparr>raster_images := raster_images r @ [drawing crect el]\<rparr> else r)" for r el
    unfolding f_def by (rule captureElement_step)
  have "forEach f els r =
      Inr (r\<lparr>raster_images :=
              raster_images r @ map (drawing crect) (filter (captured cv crect w h) els)\<rparr>)"
    by (induction els arbitrary: r) (simp_all add: step)
  then show ?thesis by (simp add: f_def)
qed

lemma captureContainer_result:
  assumes "container s \<noteq> None" and "sourceContext s \<noteq> None" and "sourceCanvas s = Some r"
  shows "captureContainer s bg crect els =
     (let r' = r\<lparr>raster_fill :=
                    (if bg \<noteq> '''' \<and> bg \<noteq> ''rgba(0, 0, 0, 0)'' \<and> bg \<noteq> ''transparent''
                     then bg else ''#000000''),
                  raster_images := map (drawing crect)
                     (filter (captured (canvas s) crect (raster_width r) (raster_height r)) els)\<rparr>
      in Inr (s\<lparr>sourceCanvas := Some r'\<rparr>, Some r'))"
proof -
  have guard: "(if els \<noteq> [] then forEach f els q else Inr q) = forEach f els q"
    for f :: "raster \<Rightarrow> element \<Rightarrow> fault + raster" and q
    by (cases els) simp_all
  obtain c x where "container s = Some c" and "sourceContext s = Some x"
    using assms(1,2) by auto
  then show ?thesis
    using assms(3) by (simp add: captureContainer_def Let_def guard forEach_captureElement)
qed

lemma captureContainer_null:
  "container s = None \<or> sourceContext s = None \<Longrightarrow>
   captureContainer s bg crect els = Inr (s, None)"
  by (auto simp: captureContainer_def)

lemma captureContainer_fault:
  "container s \<noteq> None \<Longrightarrow> sourceContext s \<noteq> None \<Longrightarrow> sourceCanvas s = None \<Longrightarrow>
   captureContainer s bg crect els = Inl TypeError"
  by (auto simp: captureContainer_def)

lemma captured_not_own:
  "(\<lambda>el. Some (node el) \<noteq> cv \<and> captured cv crect w h el) = captured cv crect w h"
  by (auto simp: captured_def fun_eq_iff)

lemma drawn_not_own:
  "i \<in> set (map (drawing crect) (filter (captured cv crect w h) els)) \<Longrightarrow>
   Some (drawn_node i) \<noteq> cv"
  by (auto simp: drawing_def captured_def)

lemma gallery_captured:
  "map (drawing page_rect) (filter (captured (canvas hero) page_rect 100 100) gallery)
     = raster_images snapshot"
  by (simp add: gallery_def visible_at_def captured_def drawing_def page_rect_def snapshot_def
      hero_def)

lemma capture_gallery:
  "captureContainer hero ''rgb(10, 20, 30)'' page_rect gallery
     = Inr (hero\<lparr>sourceCanvas := Some snapshot\<rparr>, Some snapshot)"
proof -
  have c: "container hero \<noteq> None" and x: "sourceContext hero \<noteq> None"
    and r: "sourceCanvas hero = Some \<lparr>raster_width = 100, raster_height = 100,
                                      raster_fill = '''', raster_images = []\<rparr>"
    by (simp_all add: hero_def)
  show ?thesis
    by (simp add: captureContainer_result [OF c x r] gallery_captured Let_def)
       (simp add: snapshot_def)
qed

text \<open>
  The constructor never raises, and a controller it returns has a source canvas whenever it
  has a source context.
\<close>

lemma constructor_total:
  "\<exists>s w'. constructor sid h w = Inr (s, w') \<and>
     (sourceContext s \<noteq> None \<longrightarrow> sourceCanvas s \<noteq> None)"
  by (cases "host_canvas h"; cases "host_container h"; cases "host_webgl h";
      cases "host_vertex_compiles h"; cases "host_fragment_compiles h"; cases "host_links h")
     (simp_all add: constructor_def init_def unassigned_def setupWebGL_def resize_def
        setupMouseTracking_def render_def idleGlitch_def momentumStep_def Let_def)

text \<open>
  Claim C6. On a controller that has a source canvas whenever it has a source context (every
  constructed controller has), \<^verbatim>\<open>captureContainer\<close> never raises: its promise is
  fulfilled, with \<^verbatim>\<open>null\<close> or with the source canvas. In the second case the snapshot
  holds, in document order, exactly the elements that are not the output canvas, are
  visible, overlap the raster and can be drawn; an element whose \<^verbatim>\<open>drawImage\<close> raises is
  left out and the elements after it are still drawn.
\<close>

theorem capture_never_throws:
  assumes "sourceContext s \<noteq> None \<longrightarrow> sourceCanvas s \<noteq> None"
  shows "\<exists>s' result. captureContainer s bg crect els = Inr (s', result) \<and>
           (container s \<noteq> None \<and> sourceContext s \<noteq> None \<longrightarrow>
              (\<exists>r r'. sourceCanvas s = Some r \<and> result = Some r' \<and> sourceCanvas s' = Some r' \<and>
                 raster_images r' = map (drawing crect)
                   (filter (captured (canvas s) crect (raster_width r) (raster_height r)) els)))"
proof (cases "container s \<noteq> None \<and> sourceContext s \<noteq> None")
  case False
  then show ?thesis by (auto simp: captureContainer_def)
next
  case True
  with assms obtain r where r: "sourceCanvas s = Some r" by auto
  from True r show ?thesis
    by (simp add: captureContainer_result [where r = r] Let_def)
qed

theorem capture_never_throws_witness:
  "sourceCanvas hero \<noteq> None \<and>
   container hero \<noteq> None \<and> sourceContext hero \<noteq> None \<and>
   draw_throws (gallery ! 1) \<and>
   (\<exists>s' r'. captureContainer hero ''rgb(10, 20, 30)'' page_rect gallery = Inr (s', Some r') \<and>
      map drawn_node (raster_images r') = [10, 14])"
proof -
  have h: "sourceContext hero \<noteq> None \<longrightarrow> sourceCanvas hero \<noteq> None"
    and c: "container hero \<noteq> None \<and> sourceContext hero \<noteq> None"
    and sz: "sourceCanvas hero = Some \<lparr>raster_width = 100, raster_height = 100,
                                       raster_fill = '''', raster_images = []\<rparr>"
    by (simp_all add: hero_def)
  have t: "draw_throws (gallery ! 1)"
    by (simp add: gallery_def visible_at_def)
  from capture_never_throws [OF h, of "''rgb(10, 20, 30)''" page_rect gallery] c
  obtain s' r r' where
    run: "captureContainer hero ''rgb(10, 20, 30)'' page_rect gallery = Inr (s', Some r')"
    and r: "sourceCanvas hero = Some r"
    and im: "raster_images r' = map (drawing page_rect)
           (filter (captured (canvas hero) page_rect (raster_width r) (raster_height r)) gallery)"
    by blast
  from r sz have "raster_width r = 100" and "raster_height r = 100" by auto
  with im have nodes: "map drawn_node (raster_images r') = [10, 14]"
    by (simp add: gallery_captured snapshot_def)
  have "\<exists>s' r'. captureContainer hero ''rgb(10, 20, 30)'' page_rect gallery = Inr (s', Some r') \<and>
      map drawn_node (raster_images r') = [10, 14]"
    by (rule exI [of _ s'], rule exI [of _ r']) (rule conjI [OF run nodes])
  with c t sz show ?thesis by simp
qed

text \<open>
  Claim C10. The element that is \<^verbatim>\<open>this.canvas\<close> is skipped before anything else about
  it is read: a capture gives the same result with the output canvas taken out of the list
  of media elements (whatever its style, rectangle, position in the list or drawability),
  and no image in the snapshot is a drawing of the output canvas.
\<close>

theorem own_canvas_not_captured:
  "captureContainer s bg crect (filter (\<lambda>el. Some (node el) \<noteq> canvas s) els)
     = captureContainer s bg crect els \<and>
   (\<forall>s' r'. captureContainer s bg crect els = Inr (s', Some r') \<longrightarrow>
      (\<forall>i \<in> set (raster_images r'). Some (drawn_node i) \<noteq> canvas s))"
proof (cases "container s = None \<or> sourceContext s = None")
  case True
  then show ?thesis by (simp add: captureContainer_null)
next
  case False
  then have c: "container s \<noteq> None" and x: "sourceContext s \<noteq> None" by simp_all
  show ?thesis
  proof (cases "sourceCanvas s")
    case None
    then show ?thesis by (simp add: captureContainer_fault [OF c x])
  next
    case (Some r)
    have same: "captureContainer s bg crect (filter (\<lambda>el. Some (node el) \<noteq> canvas s) els)
        = captureContainer s bg crect els"
      by (simp add: captureContainer_result [OF c x Some] captured_not_own)
    have own: "Some (drawn_node i) \<noteq> canvas s"
      if "captureContainer s bg crect els = Inr (s', Some r')" and "i \<in> set (raster_images r')"
      for s' r' i
    proof -
      from that(1) have "raster_images r' = map (drawing crect)
          (filter (captured (canvas s) crect (raster_width r) (raster_height r)) els)"
        by (auto simp: captureContainer_result [OF c x Some] Let_def)
      with that(2) have "i \<in> set (map (drawing crect)
          (filter (captured (canvas s) crect (raster_width r) (raster_height r)) els))"
        by simp
      then show ?thesis by (rule drawn_not_own)
    qed
    from same own show ?thesis by blast
  qed
qed

theorem own_canvas_not_captured_witness:
  "Some (node (gallery ! 2)) = canvas hero \<and>
   captureContainer hero ''rgb(10, 20, 30)'' page_rect gallery
     = Inr (hero\<lparr>sourceCanvas := Some snapshot\<rparr>, Some snapshot) \<and>
   captureContainer hero ''rgb(10, 20, 30)'' page_rect
       (filter (\<lambda>el. Some (node el) \<noteq> canvas hero) gallery)
     = Inr (hero\<lparr>sourceCanvas := Some snapshot\<rparr>, Some snapshot) \<and>
   canvas hero = Some 1 \<and> map drawn_node (raster_images snapshot) = [10, 14]"
proof -
  have own: "Some (node (gallery ! 2)) = canvas hero"
    by (simp add: gallery_def visible_at_def hero_def)
  have nodes: "canvas hero = Some 1" "map drawn_node (raster_images snapshot) = [10, 14]"
    by (simp_all add: snapshot_def hero_def)
  from own_canvas_not_captured [of hero "''rgb(10, 20, 30)''" page_rect gallery]
  have "captureContainer hero ''rgb(10, 20, 30)'' page_rect
       (filter (\<lambda>el. Some (node el) \<noteq> canvas hero) gallery)
     = Inr (hero\<lparr>sourceCanvas := Some snapshot\<rparr>, Some snapshot)"
    by (simp add: capture_gallery)
  with own nodes capture_gallery show ?thesis by simp
qed

subsection \<open>Debounced resize\<close>

lemma ascending_hd_le_last: "ascending (t # ts) \<Longrightarrow> t \<le> last (t # ts)"
proof (induction ts arbitrary: t)
  case Nil
  show ?case by simp
next
  case (Cons u us)
  then have "t \<le> u" and "u \<le> last (u # us)" by simp_all
  then show ?case by simp
qed

text \<open>
  On a controller with canvas, container and source canvas (the resize handler is installed
  only after the source canvas has been created) the callback raises nothing: it resizes
  the raster and, unless the 2D context is missing, leaves the re-captured raster in it and
  fulfils with it.
\<close>

lemma resizeCallback_result:
  assumes "canvas s \<noteq> None" and "container s \<noteq> None" and "sourceCanvas s \<noteq> None"
  shows "resizeCallback s rect bg els =
     (if sourceContext s = None
      then (s\<lparr>sourceCanvas := Some ((recaptured (canvas s) rect bg els)
                                        \<lparr>raster_fill := '''', raster_images := []\<rparr>)\<rparr>,
            Inr None)
      else (s\<lparr>sourceCanvas := Some (recaptured (canvas s) rect bg els)\<rparr>,
            Inr (Some (recaptured (canvas s) rect bg els))))"
proof -
  from assms obtain v c r where f: "canvas s = Some v" "container s = Some c"
      "sourceCanvas s = Some r"
    by auto
  define r1 where "r1 = \<lparr>raster_width = reflected 300 (rect_width rect),
      raster_height = reflected 150 (rect_height rect),
      raster_fill = '''', raster_images = []\<rparr>"
  define s1 where "s1 = s\<lparr>sourceCanvas := Some r1\<rparr>"
  have sized: "resize s rect = Inr s1"
    by (simp add: resize_def f r1_def s1_def)
  show ?thesis
  proof (cases "sourceContext s")
    case None
    then have "captureContainer s1 bg rect els = Inr (s1, None)"
      by (intro captureContainer_null) (simp add: s1_def)
    then show ?thesis
      using None by (simp add: resizeCallback_def sized s1_def r1_def recaptured_def)
  next
    case (Some x)
    have "container s1 \<noteq> None" and "sourceContext s1 \<noteq> None" and "sourceCanvas s1 = Some r1"
      by (simp_all add: s1_def f Some)
    then have "captureContainer s1 bg rect els =
        Inr (s1\<lparr>sourceCanvas := Some (recaptured (canvas s) rect bg els)\<rparr>,
             Some (recaptured (canvas s) rect bg els))"
      by (simp add: captureContainer_result [where r = r1] Let_def)
         (simp add: r1_def recaptured_def s1_def)
    then show ?thesis
      using Some by (simp add: resizeCallback_def sized s1_def)
  qed
qed

text \<open>A resize event while no timer is due: the pending timer is replaced by a new one.\<close>

lemma resizeHandler_rearms:
  assumes "armed_after t st"
  shows "resizeHandler t (runTimers view t st) =
     st\<lparr>timerTable := [(Suc (timerCount st), t + 100)], timerCount := Suc (timerCount st),
        resizeTimeout := Some (Suc (timerCount st))\<rparr>"
proof -
  from assms have none_due: "filter (\<lambda>(i, due). due \<le> t) (timerTable st) = []"
    by (auto simp: armed_after_def)
  then have idle: "runTimers view t st = st"
    by (simp add: runTimers_def)
  from assms have "timerTable (clearTimeout (resizeTimeout st) st) = []"
    by (cases "resizeTimeout st") (auto simp: armed_after_def clearTimeout_def)
  moreover have "clearTimeout (resizeTimeout st) st = st\<lparr>timerTable := timerTable (clearTimeout (resizeTimeout st) st)\<rparr>"
    by (cases "resizeTimeout st") (simp_all add: clearTimeout_def)
  ultimately have cleared: "clearTimeout (resizeTimeout st) st = st\<lparr>timerTable := []\<rparr>"
    by simp
  show ?thesis
    by (simp add: idle resizeHandler_def cleared setTimeout_def Let_def)
qed

lemma resizeEvents_burst:
  assumes "ascending (t # ts)" and "last (t # ts) < bound" and "bound \<le> t + 100"
    and "armed_after t st"
  shows "\<exists>k. resizeEvents view (t # ts) st =
     st\<lparr>timerTable := [(k, last (t # ts) + 100)], timerCount := k, resizeTimeout := Some k\<rparr>"
  using assms
proof (induction ts arbitrary: t st)
  case Nil
  then have "resizeEvents view [t] st =
      st\<lparr>timerTable := [(Suc (timerCount st), last [t] + 100)],
         timerCount := Suc (timerCount st), resizeTimeout := Some (Suc (timerCount st))\<rparr>"
    by (simp add: resizeHandler_rearms)
  then show ?case by (rule exI)
next
  case (Cons u us)
  define k where "k = Suc (timerCount st)"
  define st1 where "st1 = st\<lparr>timerTable := [(k, t + 100)], timerCount := k, resizeTimeout := Some k\<rparr>"
  have first: "resizeHandler t (runTimers view t st) = st1"
    using Cons.prems(4) by (simp add: resizeHandler_rearms st1_def k_def)
  have asc: "ascending (u # us)" and tu: "t \<le> u"
    using Cons.prems(1) by simp_all
  have lastu: "last (u # us) < bound"
    using Cons.prems(2) by simp
  have "u \<le> last (u # us)" using asc by (rule ascending_hd_le_last)
  with lastu Cons.prems(3) have u_due: "u < t + 100" by linarith
  have bu: "bound \<le> u + 100" using Cons.prems(3) tu by linarith
  have armed: "armed_after u st1"
    using u_due by (simp add: armed_after_def st1_def)
  from Cons.IH [OF asc lastu bu armed] obtain j where
    "resizeEvents view (u # us) st1 =
       st1\<lparr>timerTable := [(j, last (u # us) + 100)], timerCount := j, resizeTimeout := Some j\<rparr>"
    by blast
  then have "resizeEvents view (t # u # us) st =
       st\<lparr>timerTable := [(j, last (t # u # us) + 100)], timerCount := j, resizeTimeout := Some j\<rparr>"
    using first by (simp add: st1_def)
  then show ?case by blast
qed

text \<open>
  Claim C7. Take a controller whose resize handler is installed (canvas, container and
  source canvas exist) and a burst of resize events, all less than 100 ms after the first,
  that starts while no timer is pending (or before the only pending one, the one the
  handler knows, is due). During the burst and until 100 ms after its last event the
  controller is not touched and no callback runs: every event cancels the timer of the one
  before. Once 100 ms have passed since the last event exactly one callback has run, at
  that moment, however many events the burst had: no timer is left, and the callback has
  resized the source raster to the container as it is then and re-captured the page into
  it (or, without a 2D context, resized it and captured nothing).
\<close>

theorem one_recapture_per_burst:
  assumes "burst ts" and "armed_after (hd ts) st"
    and "canvas (effect st) \<noteq> None" and "container (effect st) \<noteq> None"
    and "sourceCanvas (effect st) \<noteq> None"
  shows "effect (resizeEvents view ts st) = effect st \<and>
         recaptures (resizeEvents view ts st) = recaptures st \<and>
         (\<forall>now. now < last ts + 100 \<longrightarrow>
            runTimers view now (resizeEvents view ts st) = resizeEvents view ts st) \<and>
         (\<forall>now. last ts + 100 \<le> now \<longrightarrow>
            (let (rect, bg, els) = view (last ts + 100);
                 snap = recaptured (canvas (effect st)) rect bg els;
                 st' = runTimers view now (resizeEvents view ts st)
             in timerTable st' = [] \<and>
                recaptures st' = recaptures st @
                  [(last ts + 100,
                    Inr (if sourceContext (effect st) = None then None else Some snap))] \<and>
                sourceCanvas (effect st') =
                  Some (if sourceContext (effect st) = None
                        then snap\<lparr>raster_fill := '''', raster_images := []\<rparr> else snap)))"
proof -
  from assms(1) obtain t us where ts: "ts = t # us"
    by (cases ts) (simp_all add: burst_def)
  from assms(1) have asc: "ascending (t # us)" and win: "last (t # us) < t + 100"
    by (simp_all add: burst_def ts)
  from assms(2) have armed: "armed_after t st"
    by (simp add: ts)
  define due where "due = last ts + 100"
  define st1 where "st1 = resizeEvents view ts st"
  obtain k where after: "st1 =
      st\<lparr>timerTable := [(k, due)], timerCount := k, resizeTimeout := Some k\<rparr>"
    using resizeEvents_burst [OF asc win order_refl armed, of view]
    unfolding st1_def due_def ts by blast
  obtain rect bg els where scene: "view due = (rect, bg, els)"
    by (cases "view due")
  define snap where "snap = recaptured (canvas (effect st)) rect bg els"
  note cb = resizeCallback_result [OF assms(3,4,5), of rect bg els, folded snap_def]
  have a: "effect st1 = effect st" and b: "recaptures st1 = recaptures st"
    by (simp_all add: after)
  have c: "runTimers view now st1 = st1" if "now < due" for now
    using that by (simp add: after runTimers_def)
  have late: "runTimers view now st1 = fire view (k, due) st1" if "due \<le> now" for now
    using that by (simp add: after runTimers_def)
  have fired: "fire view (k, due) st1 =
      st\<lparr>timerTable := [], timerCount := k, resizeTimeout := Some k,
         effect := fst (resizeCallback (effect st) rect bg els),
         recaptures := recaptures st @ [(due, snd (resizeCallback (effect st) rect bg els))]\<rparr>"
    by (simp add: after fire_def scene Let_def split_beta)
  have d: "timerTable (runTimers view now st1) = [] \<and>
      recaptures (runTimers view now st1) = recaptures st @
        [(due, Inr (if sourceContext (effect st) = None then None else Some snap))] \<and>
      sourceCanvas (effect (runTimers view now st1)) =
        Some (if sourceContext (effect st) = None
              then snap\<lparr>raster_fill := '''', raster_images := []\<rparr> else snap)"
    if "due \<le> now" for now
    unfolding late [OF that] fired by (simp add: cb)
  show ?thesis
    unfolding st1_def [symmetric] due_def [symmetric] Let_def scene prod.case
      snap_def [symmetric]
    using a b c d by blast
qed

lemma recaptured_wide:
  "recaptured (canvas hero) wide_rect ''rgb(10, 20, 30)'' gallery = wide_snapshot"
  by (simp add: recaptured_def wide_rect_def wide_snapshot_def reflected_def unsigned_long_def
      gallery_def visible_at_def captured_def drawing_def hero_def)

text \<open>
  Without line 313 the timer of an earlier event of the burst stays in the table, and the
  timer task runs the callback for it as well.
\<close>

lemma clearTimeout_matters:
  "map fst (recaptures (runTimers stretching 1250
      (resizeHandler 1030 (resizeHandler 1000 still)))) = [1130] \<and>
   map fst (recaptures (runTimers stretching 1250
      (resizeHandler_without_clear 1030 (resizeHandler 1000 still)))) = [1100, 1130]"
  by (simp add: resizeHandler_def resizeHandler_without_clear_def clearTimeout_def
      setTimeout_def runTimers_def fire_def still_def Let_def split_beta)

theorem one_recapture_per_burst_witness:
  "burst flurry \<and> armed_after (hd flurry) still \<and>
   canvas (effect still) \<noteq> None \<and> container (effect still) \<noteq> None \<and>
   sourceCanvas (effect still) \<noteq> None \<and> sourceContext (effect still) \<noteq> None \<and>
   length flurry = 4 \<and>
   recaptures (runTimers stretching 1198 (resizeEvents stretching flurry still)) = [] \<and>
   recaptures (runTimers stretching 1250 (resizeEvents stretching flurry still))
     = [(1199, Inr (Some wide_snapshot))] \<and>
   sourceCanvas (effect (runTimers stretching 1250 (resizeEvents stretching flurry still)))
     = Some wide_snapshot \<and>
   raster_width wide_snapshot = 200 \<and> map drawn_node (raster_images wide_snapshot) = [10, 13, 14]"
proof -
  have b: "burst flurry"
    by (simp add: burst_def flurry_def)
  have a: "armed_after (hd flurry) still"
    by (simp add: armed_after_def still_def)
  have f: "canvas (effect still) \<noteq> None" "container (effect still) \<noteq> None"
    "sourceCanvas (effect still) \<noteq> None"
    and x: "sourceContext (effect still) \<noteq> None"
    by (simp_all add: still_def hero_def)
  have l: "last flurry + 100 = 1199" "length flurry = 4" "recaptures still = []"
    "effect still = hero"
    by (simp_all add: flurry_def still_def)
  have scene: "stretching 1199 = (wide_rect, ''rgb(10, 20, 30)'', gallery)"
    by (simp add: stretching_def)
  have w: "raster_width wide_snapshot = 200"
    "map drawn_node (raster_images wide_snapshot) = [10, 13, 14]"
    by (simp_all add: wide_snapshot_def)
  note t = one_recapture_per_burst [OF b a f, of stretching, unfolded l scene Let_def prod.case
      recaptured_wide]
  from t have early: "runTimers stretching 1198 (resizeEvents stretching flurry still)
      = resizeEvents stretching flurry still"
    and quiet: "recaptures (resizeEvents stretching flurry still) = []"
    by simp_all
  from t have late: "recaptures (runTimers stretching 1250 (resizeEvents stretching flurry still))
        = [(1199, Inr (if sourceContext hero = None then None else Some wide_snapshot))]"
    and src: "sourceCanvas (effect (runTimers stretching 1250 (resizeEvents stretching flurry still)))
        = Some (if sourceContext hero = None
                then wide_snapshot\<lparr>raster_fill := '''', raster_images := []\<rparr>
                else wide_snapshot)"
    by simp_all
  have ctx: "sourceContext hero \<noteq> None" by (simp add: hero_def)
  show ?thesis
    using b a f x w by (simp add: l early quiet late src ctx)
qed

subsection \<open>Teardown\<close>

lemma destroy_twice: "\<exists>w'. destroy s w = Inr w' \<and> destroy s w' = Inr w'"
  by (cases "animationFrameId s"; cases "container s"; cases "gl s"; cases "program s";
      cases "texture s"; cases "mouseMoveHandler_set s")
     (simp_all add: destroy_def and_then_def cancelAnimationFrame_def removeEventListener_def
        deleteProgram_def deleteTexture_def)

text \<open>
  Claim C9. \<^verbatim>\<open>destroy\<close> raises on no controller and in no state of the browser, and a
  second call finds nothing left to do: it returns the state the first call left. This
  holds in particular for the controller that the constructor returns on any page, whether
  the canvas or the container is missing, no WebGL context is available, or a shader fails
  to compile or the program to link.
\<close>

theorem destroy_safe_and_idempotent:
  "(\<exists>w'. destroy s w = Inr w' \<and> destroy s w' = Inr w') \<and>
   (\<exists>s0 w0 w1. constructor sid h v = Inr (s0, w0) \<and>
      destroy s0 w0 = Inr w1 \<and> destroy s0 w1 = Inr w1)"
proof
  show "\<exists>w'. destroy s w = Inr w' \<and> destroy s w' = Inr w'"
    by (rule destroy_twice)
  obtain s0 w0 where c: "constructor sid h v = Inr (s0, w0)"
    using constructor_total [of sid h v] by blast
  obtain w1 where "destroy s0 w0 = Inr w1" and "destroy s0 w1 = Inr w1"
    using destroy_twice [of s0 w0] by blast
  with c show "\<exists>s0 w0 w1. constructor sid h v = Inr (s0, w0) \<and>
      destroy s0 w0 = Inr w1 \<and> destroy s0 w1 = Inr w1"
    by blast
qed

text \<open>
  The four pages on which construction stops early: in each case the constructor returns,
  and \<^verbatim>\<open>destroy\<close> on its controller returns and leaves nothing registered or alive.
\<close>

lemma destroy_on_failed_pages:
  "(case constructor ''hero'' page_without_canvas nothing of
      Inl e \<Rightarrow> False | Inr (s, w) \<Rightarrow> canvas s = None \<and> destroy s w = Inr nothing) \<and>
   (case constructor ''hero'' page_without_webgl nothing of
      Inl e \<Rightarrow> False | Inr (s, w) \<Rightarrow> gl s = None \<and> destroy s w = Inr nothing) \<and>
   (case constructor ''hero'' page_with_broken_shader nothing of
      Inl e \<Rightarrow> False | Inr (s, w) \<Rightarrow> program s = None \<and> destroy s w = Inr nothing) \<and>
   (case constructor ''hero'' page_with_broken_link nothing of
      Inl e \<Rightarrow> False | Inr (s, w) \<Rightarrow> program s = None \<and> destroy s w = Inr nothing)"
  by (simp add: constructor_def init_def page_def nothing_def page_without_canvas_def
      page_without_webgl_def page_with_broken_shader_def page_with_broken_link_def
      unassigned_def setupWebGL_def setupMouseTracking_def render_def Let_def
      destroy_def and_then_def cancelAnimationFrame_def removeEventListener_def
      deleteProgram_def deleteTexture_def)

lemma constructor_page_with_broken_shader:
  "constructor ''hero'' page_with_broken_shader nothing =
     Inr (hero\<lparr>program := None, texture := None, animationFrameId := None, time := 0,
               sourceCanvas := Some \<lparr>raster_width = 300, raster_height = 150,
                                     raster_fill = '''', raster_images = []\<rparr>\<rparr>,
          nothing\<lparr>pointerListeners := {(2, ''mousemove''), (2, ''mouseleave'')}\<rparr>)"
  by (simp add: constructor_def init_def page_def nothing_def page_with_broken_shader_def
      hero_def unassigned_def setupWebGL_def setupMouseTracking_def render_def Let_def
      insert_commute)

theorem destroy_safe_and_idempotent_witness:
  "destroy hero hero_world = Inr nothing \<and> destroy hero nothing = Inr nothing \<and>
   (\<exists>s0 w0. constructor ''hero'' page_with_broken_shader nothing = Inr (s0, w0) \<and>
      program s0 = None \<and> pointerListeners w0 \<noteq> {} \<and>
      destroy s0 w0 = Inr nothing \<and> destroy s0 nothing = Inr nothing)"
proof -
  have full: "destroy hero hero_world = Inr nothing"
    by (simp add: destroy_def and_then_def cancelAnimationFrame_def removeEventListener_def
        deleteProgram_def deleteTexture_def hero_def hero_world_def nothing_def)
  from destroy_safe_and_idempotent [of hero hero_world "''hero''" page_with_broken_shader nothing]
  obtain s0 w0 w1 where again: "destroy hero nothing = Inr nothing"
    and c: "constructor ''hero'' page_with_broken_shader nothing = Inr (s0, w0)"
    and d: "destroy s0 w0 = Inr w1" "destroy s0 w1 = Inr w1"
    by (auto simp: full)
  from c have s0: "s0 = hero\<lparr>program := None, texture := None, animationFrameId := None,
               time := 0,
               sourceCanvas := Some \<lparr>raster_width = 300, raster_height = 150,
                                     raster_fill = '''', raster_images = []\<rparr>\<rparr>"
    and w0: "w0 = nothing\<lparr>pointerListeners := {(2, ''mousemove''), (2, ''mouseleave'')}\<rparr>"
    by (simp_all add: constructor_page_with_broken_shader)
  have "destroy s0 w0 = Inr nothing"
    by (simp add: s0 w0 destroy_def and_then_def cancelAnimationFrame_def
        removeEventListener_def deleteProgram_def deleteTexture_def hero_def nothing_def)
  with d have "w1 = nothing" by simp
  with d c full again show ?thesis
    by (simp add: s0 w0 hero_def nothing_def)
qed

subsection \<open>Boundedness of the pointer state\<close>

text \<open>
  Per axis a frame maps velocity \<open>v\<close> and offset \<open>m\<close> to
  \<open>v' = (v + w - m a) \<mu>\<close> and \<open>m' = m + v'\<close>, where \<open>\<mu>\<close> is the momentum,
  \<open>a\<close> the attraction and \<open>w\<close> collects the idle nudge and the pull of the target. The
  measure of the frame's mode shrinks by a tenth under the map without \<open>w\<close>, and \<open>w\<close> is
  small, so the measure stays below its level.
\<close>

lemma energy_nonneg: "0 \<le> energy h v m"
proof (cases h)
  case True
  have "100 * v\<^sup>2 + 8 * v * m + 10 * m\<^sup>2 = 100 * (v + m / 25)\<^sup>2 + (246 / 25) * m\<^sup>2"
    by (simp add: power2_eq_square algebra_simps)
  then show ?thesis using True by (simp add: energy_def)
next
  case False
  have "100 * v\<^sup>2 + 16 * v * m + 2 * m\<^sup>2 = 100 * (v + 2 * m / 25)\<^sup>2 + (34 / 25) * m\<^sup>2"
    by (simp add: power2_eq_square algebra_simps)
  then show ?thesis using False by (simp add: energy_def)
qed

lemma energy_contracts:
  "energy h ((v - m * (if h then 1/10 else 1/50)) * (17/20))
            (m + (v - m * (if h then 1/10 else 1/50)) * (17/20)) \<le> 9/10 * energy h v m"
proof (cases h)
  case True
  have "9/10 * energy True v m
        - energy True ((v - m * (1/10)) * (17/20)) (m + (v - m * (1/10)) * (17/20))
      = (949/200) * (v + (451/9490) * m)\<^sup>2 + (24519/47450) * m\<^sup>2"
    by (simp add: energy_def power2_eq_square field_simps)
  moreover have "0 \<le> (949/200) * (v + (451/9490) * m)\<^sup>2 + (24519/47450) * m\<^sup>2"
    by simp
  ultimately have "energy True ((v - m * (1/10)) * (17/20)) (m + (v - m * (1/10)) * (17/20))
      \<le> 9/10 * energy True v m"
    by linarith
  then show ?thesis using True by simp
next
  case False
  have "9/10 * energy False v m
        - energy False ((v - m * (1/50)) * (17/20)) (m + (v - m * (1/50)) * (17/20))
      = (949/200) * (v + (4051/47450) * m)\<^sup>2 + (16919/237250) * m\<^sup>2"
    by (simp add: energy_def power2_eq_square field_simps)
  moreover have "0 \<le> (949/200) * (v + (4051/47450) * m)\<^sup>2 + (16919/237250) * m\<^sup>2"
    by simp
  ultimately have "energy False ((v - m * (1/50)) * (17/20)) (m + (v - m * (1/50)) * (17/20))
      \<le> 9/10 * energy False v m"
    by linarith
  then show ?thesis using False by simp
qed

lemma energy_sum:
  "energy h (x + b) (y + c) \<le> 19/18 * energy h x y + 19 * energy h b c"
proof -
  have "19/18 * energy h x y + 19 * energy h b c - energy h (x + b) (y + c)
      = 18 * energy h (x / 18 - b) (y / 18 - c)"
    by (cases h) (simp_all add: energy_def power2_eq_square field_simps)
  moreover have "0 \<le> 18 * energy h (x / 18 - b) (y / 18 - c)"
    using energy_nonneg [of h "x / 18 - b" "y / 18 - c"] by simp
  ultimately show ?thesis by linarith
qed


lemma energy_diagonal: "energy h b b = 118 * b\<^sup>2"
  by (simp add: energy_def power2_eq_square)

lemma energy_step:
  fixes v m w :: real
  assumes "energy h v m \<le> budget h"
    and "\<bar>w\<bar> \<le> (if h then 4 / 10000 else 108 / 100000)"
  shows "energy h ((v + w - m * (if h then 1/10 else 1/50)) * (17/20))
                  (m + (v + w - m * (if h then 1/10 else 1/50)) * (17/20)) \<le> budget h"
proof -
  define a :: real where "a = (if h then 1/10 else 1/50)"
  define x where "x = (v - m * a) * (17/20)"
  define b where "b = w * (17/20)"
  have split: "(v + w - m * a) * (17/20) = x + b"
    by (simp add: x_def b_def field_simps)
  have "energy h (x + b) ((m + x) + b) \<le> 19/18 * energy h x (m + x) + 19 * energy h b b"
    by (rule energy_sum)
  also have "energy h x (m + x) \<le> 9/10 * energy h v m"
    unfolding x_def a_def by (rule energy_contracts)
  finally have one: "energy h (x + b) ((m + x) + b) \<le> 19/20 * energy h v m + 19 * energy h b b"
    by simp
  have "\<bar>w\<bar> \<le> \<bar>if h then 4 / 10000 else 108 / 100000 :: real\<bar>"
    using assms(2) by (cases h) simp_all
  then have "w\<^sup>2 \<le> (if h then 4 / 10000 else 108 / 100000)\<^sup>2"
    by (simp only: abs_le_square_iff)
  then have "19 * energy h b b \<le> budget h / 20"
    by (cases h) (simp_all add: energy_diagonal b_def budget_def power2_eq_square)
  with one assms(1) have "energy h (x + b) ((m + x) + b) \<le> budget h"
    by linarith
  then have "energy h (x + b) (m + (x + b)) \<le> budget h"
    by (simp only: add.assoc)
  then show ?thesis
    unfolding split [symmetric] a_def .
qed

lemma mouseSensitivity_idleGlitch: "mouseSensitivity (idleGlitch s d) = mouseSensitivity s"
  by (simp add: idleGlitch_def)

lemma nudge_size:
  fixes r :: real
  assumes "0 \<le> r" and "r < 1"
  shows "\<bar>(r - 0.5) * 0.002\<bar> \<le> 1 / 1000" and "\<bar>(r - 0.5) * 0.0005\<bar> \<le> 1 / 1000"
proof -
  have "\<bar>r - 0.5\<bar> \<le> 0.5" using assms by linarith
  then show "\<bar>(r - 0.5) * 0.002\<bar> \<le> 1 / 1000" and "\<bar>(r - 0.5) * 0.0005\<bar> \<le> 1 / 1000"
    by (simp_all add: abs_mult)
qed

lemma idleGlitch_nudgeX:
  assumes "unit_draws d"
  shows "\<bar>velocityX (idleGlitch s d) - velocityX s\<bar> \<le> (if isHovering s then 0 else 1 / 1000)"
proof -
  from assms have r2: "0 \<le> rnd2 d" "rnd2 d < 1" and r3: "0 \<le> rnd3 d" "rnd3 d < 1"
    by (simp_all add: unit_draws_def unit_draw_def)
  show ?thesis
    using nudge_size [OF r2] nudge_size [OF r3]
    by (cases "isHovering s"; cases "rnd1 d < 0.001"; cases "rnd2 d < 0.01")
       (simp_all add: idleGlitch_def)
qed

lemma idleGlitch_nudgeY:
  assumes "unit_draws d"
  shows "\<bar>velocityY (idleGlitch s d) - velocityY s\<bar> \<le> (if isHovering s then 0 else 1 / 1000)"
proof -
  from assms have r3: "0 \<le> rnd3 d" "rnd3 d < 1" and r4: "0 \<le> rnd4 d" "rnd4 d < 1"
    by (simp_all add: unit_draws_def unit_draw_def)
  show ?thesis
    using nudge_size [OF r3] nudge_size [OF r4]
    by (cases "isHovering s"; cases "rnd1 d < 0.001"; cases "rnd2 d < 0.01")
       (simp_all add: idleGlitch_def)
qed

text \<open>One axis of a frame: the new velocity and offset, from the old ones, the nudged velocity and the target.\<close>

lemma axis_settles:
  fixes v m t v1 :: real
  assumes e: "energy h v m \<le> budget h"
    and t: "\<bar>t\<bar> \<le> 4 / 1000"
    and n: "\<bar>v1 - v\<bar> \<le> (if h then 0 else 1 / 1000)"
  shows "energy h ((v1 + (t - m) * (if h then 1/10 else 1/50)) * (17/20))
                  (m + (v1 + (t - m) * (if h then 1/10 else 1/50)) * (17/20)) \<le> budget h"
proof -
  define a :: real where "a = (if h then 1/10 else 1/50)"
  define w where "w = (v1 - v) + t * a"
  have a0: "0 \<le> a" by (simp add: a_def)
  have "\<bar>w\<bar> \<le> \<bar>v1 - v\<bar> + \<bar>t * a\<bar>"
    unfolding w_def by (rule abs_triangle_ineq)
  also have "\<bar>t * a\<bar> = \<bar>t\<bar> * a"
    using a0 by (simp add: abs_mult)
  also have "\<bar>t\<bar> * a \<le> 4 / 1000 * a"
    using t a0 by (rule mult_right_mono)
  finally have "\<bar>w\<bar> \<le> \<bar>v1 - v\<bar> + 4 / 1000 * a" by simp
  also have "\<dots> \<le> (if h then 4 / 10000 else 108 / 100000)"
    using n by (cases h) (simp_all add: a_def)
  finally have w: "\<bar>w\<bar> \<le> (if h then 4 / 10000 else 108 / 100000)" .
  have eq: "v1 + (t - m) * a = v + w - m * a"
    by (simp add: w_def algebra_simps)
  from energy_step [OF e w] show ?thesis
    unfolding a_def [symmetric] eq .
qed

lemma at_rest_settled: "at_rest s \<Longrightarrow> settled s"
  by (simp add: at_rest_def settled_def energy_def budget_def)

lemma mouseLeaveHandler_settled:
  assumes "settled s"
  shows "settled (mouseLeaveHandler s)"
proof (cases "isHovering s")
  case False
  then have "mouseLeaveHandler s = s"
    by (simp add: mouseLeaveHandler_def)
  with assms show ?thesis by simp
next
  case True
  have looser: "energy False v m \<le> budget False" if "energy True v m \<le> budget True" for v m
  proof -
    have "2 * energy True v m - energy False v m = 100 * v\<^sup>2 + 18 * m\<^sup>2"
      by (simp add: energy_def)
    moreover have "0 \<le> 100 * v\<^sup>2 + 18 * m\<^sup>2" by simp
    ultimately have "energy False v m \<le> 2 * energy True v m" by linarith
    with that show ?thesis by (simp add: budget_def)
  qed
  from assms True show ?thesis
    by (simp add: settled_def mouseLeaveHandler_def looser)
qed

lemma mouseMoveHandler_settled:
  assumes "settled s" and "inside e rect"
  shows "\<exists>s'. mouseMoveHandler s e rect = Some s' \<and> settled s'"
proof -
  define x where "x = (clientX e - rect_left rect) / rect_width rect"
  define y where "y = (clientY e - rect_top rect) / rect_height rect"
  define tx where "tx = (x - 0.5) * mouseSensitivity s"
  define ty where "ty = (y - 0.5) * mouseSensitivity s"
  from assms(2) have pos: "rect_width rect \<noteq> 0" "rect_height rect \<noteq> 0"
    and wh: "0 < rect_width rect" "0 < rect_height rect"
    and inx: "rect_left rect \<le> clientX e" "clientX e \<le> rect_left rect + rect_width rect"
    and iny: "rect_top rect \<le> clientY e" "clientY e \<le> rect_top rect + rect_height rect"
    by (simp_all add: inside_def)
  from assms(1) have sens: "mouseSensitivity s = 0.008" and mu: "momentum s = 0.85"
    and ex: "energy (isHovering s) (velocityX s) (mouseX s) \<le> budget (isHovering s)"
    and ey: "energy (isHovering s) (velocityY s) (mouseY s) \<le> budget (isHovering s)"
    by (simp_all add: settled_def)
  have x01: "0 \<le> x" "x \<le> 1"
    using wh inx by (simp_all add: x_def field_simps)
  have y01: "0 \<le> y" "y \<le> 1"
    using wh iny by (simp_all add: y_def field_simps)
  have "\<bar>x - 0.5\<bar> \<le> 0.5" and "\<bar>y - 0.5\<bar> \<le> 0.5"
    using x01 y01 by linarith+
  then have t: "\<bar>tx\<bar> \<le> 0.004" "\<bar>ty\<bar> \<le> 0.004"
    by (simp_all add: tx_def ty_def sens abs_mult)
  have zero: "energy True 0 0 \<le> budget True"
    by (simp add: energy_def budget_def)
  show ?thesis
  proof (cases "isHovering s")
    case True
    have "mouseMoveHandler s e rect = Some (s\<lparr>isHovering := True, targetMouseX := tx, targetMouseY := ty\<rparr>)"
      using True pos by (simp add: mouseMoveHandler_def Let_def tx_def ty_def x_def y_def)
    moreover have "settled (s\<lparr>isHovering := True, targetMouseX := tx, targetMouseY := ty\<rparr>)"
      using True t ex ey by (simp add: settled_def sens mu)
    ultimately show ?thesis by simp
  next
    case False
    have "mouseMoveHandler s e rect =
        Some (s\<lparr>isHovering := True, mouseX := 0, mouseY := 0, velocityX := 0, velocityY := 0,
                 targetMouseX := tx, targetMouseY := ty\<rparr>)"
      using False pos by (simp add: mouseMoveHandler_def Let_def tx_def ty_def x_def y_def)
    moreover have "settled (s\<lparr>isHovering := True, mouseX := 0, mouseY := 0, velocityX := 0,
                 velocityY := 0, targetMouseX := tx, targetMouseY := ty\<rparr>)"
      using t zero by (simp add: settled_def sens mu)
    ultimately show ?thesis by simp
  qed
qed

lemma render_settled:
  assumes "settled s" and "unit_draws d"
  shows "settled (render s d raf)"
proof (cases "gl s = None \<or> program s = None")
  case True
  then have "render s d raf = s" by (auto simp: render_def)
  with assms(1) show ?thesis by simp
next
  case False
  then have g: "gl s \<noteq> None" and p: "program s \<noteq> None" by simp_all
  from assms(1) have mu: "momentum s = 17 / 20" and sens: "mouseSensitivity s = 0.008"
    and tx: "\<bar>targetMouseX s\<bar> \<le> 4 / 1000" and ty: "\<bar>targetMouseY s\<bar> \<le> 4 / 1000"
    and ex: "energy (isHovering s) (velocityX s) (mouseX s) \<le> budget (isHovering s)"
    and ey: "energy (isHovering s) (velocityY s) (mouseY s) \<le> budget (isHovering s)"
    by (simp_all add: settled_def)
  define h where "h = isHovering s"
  define vx where "vx = (velocityX (idleGlitch s d)
      + (targetMouseX s - mouseX s) * (if h then 1/10 else 1/50)) * (17/20)"
  define vy where "vy = (velocityY (idleGlitch s d)
      + (targetMouseY s - mouseY s) * (if h then 1/10 else 1/50)) * (17/20)"
  have ax: "energy h vx (mouseX s + vx) \<le> budget h"
    unfolding vx_def using ex tx idleGlitch_nudgeX [OF assms(2), of s]
    unfolding h_def by (rule axis_settles)
  have ay: "energy h vy (mouseY s + vy) \<le> budget h"
    unfolding vy_def using ey ty idleGlitch_nudgeY [OF assms(2), of s]
    unfolding h_def by (rule axis_settles)
  have att: "(if isHovering s then 0.1 else 0.02 :: real) = (if h then 1/10 else 1/50)"
    by (simp add: h_def)
  have fields: "velocityX (render s d raf) = vx" "velocityY (render s d raf) = vy"
    "mouseX (render s d raf) = mouseX s + vx" "mouseY (render s d raf) = mouseY s + vy"
    by (simp_all only: render_velocityX [OF g p] render_velocityY [OF g p]
        render_mouseX [OF g p] render_mouseY [OF g p] att mu vx_def vy_def)
  have same: "isHovering (render s d raf) = h" "momentum (render s d raf) = momentum s"
    "mouseSensitivity (render s d raf) = mouseSensitivity s"
    "targetMouseX (render s d raf) = targetMouseX s"
    "targetMouseY (render s d raf) = targetMouseY s"
    by (simp_all add: render_runs [OF g p] momentumStep_def Let_def idleGlitch_keeps
        mouseSensitivity_idleGlitch h_def)
  show ?thesis
    unfolding settled_def fields same
    using ax ay tx ty by (simp add: mu sens)
qed

lemma step_settled:
  assumes "settled s" and "host_event ev"
  shows "\<exists>s'. step s ev = Some s' \<and> settled s'"
proof (cases ev)
  case (MouseMove e rect)
  with assms show ?thesis by (simp add: mouseMoveHandler_settled)
next
  case MouseLeave
  with assms show ?thesis by (simp add: mouseLeaveHandler_settled)
next
  case (Frame d raf)
  with assms show ?thesis by (simp add: render_settled)
qed

lemma run_settled:
  assumes "settled s" and "list_all host_event evs"
  shows "\<exists>s'. run s evs = Some s' \<and> settled s'"
  using assms
proof (induction evs arbitrary: s)
  case Nil
  then show ?case by simp
next
  case (Cons ev evs)
  then obtain s1 where s1: "step s ev = Some s1" "settled s1"
    using step_settled [of s ev] by auto
  with Cons.IH [of s1] Cons.prems show ?case by simp
qed

lemma energy_bounds:
  assumes "energy h v m \<le> budget h"
  shows "\<bar>m\<bar> \<le> 1 / 5" and "\<bar>v\<bar> \<le> 1 / 40"
proof -
  have b: "budget h \<le> 19 / 500"
    by (simp add: budget_def)
  have m1: "(34 / 25) * m\<^sup>2 \<le> energy h v m"
  proof (cases h)
    case True
    have "energy True v m - (34 / 25) * m\<^sup>2 = 100 * (v + m / 25)\<^sup>2 + (212 / 25) * m\<^sup>2"
      by (simp add: energy_def power2_eq_square field_simps)
    moreover have "0 \<le> 100 * (v + m / 25)\<^sup>2 + (212 / 25) * m\<^sup>2" by simp
    ultimately have "(34 / 25) * m\<^sup>2 \<le> energy True v m" by linarith
    then show ?thesis using True by simp
  next
    case False
    have "energy False v m - (34 / 25) * m\<^sup>2 = 100 * (v + 2 * m / 25)\<^sup>2"
      by (simp add: energy_def power2_eq_square field_simps)
    moreover have "0 \<le> 100 * (v + 2 * m / 25)\<^sup>2" by simp
    ultimately have "(34 / 25) * m\<^sup>2 \<le> energy False v m" by linarith
    then show ?thesis using False by simp
  qed
  have v1: "68 * v\<^sup>2 \<le> energy h v m"
  proof (cases h)
    case True
    have "energy True v m - 68 * v\<^sup>2 = 10 * (m + 2 * v / 5)\<^sup>2 + (152 / 5) * v\<^sup>2"
      by (simp add: energy_def power2_eq_square field_simps)
    moreover have "0 \<le> 10 * (m + 2 * v / 5)\<^sup>2 + (152 / 5) * v\<^sup>2" by simp
    ultimately have "68 * v\<^sup>2 \<le> energy True v m" by linarith
    then show ?thesis using True by simp
  next
    case False
    have "energy False v m - 68 * v\<^sup>2 = 2 * (m + 4 * v)\<^sup>2"
      by (simp add: energy_def power2_eq_square field_simps)
    moreover have "0 \<le> 2 * (m + 4 * v)\<^sup>2" by simp
    ultimately have "68 * v\<^sup>2 \<le> energy False v m" by linarith
    then show ?thesis using False by simp
  qed
  from m1 assms b have "m\<^sup>2 \<le> 1 / 25" by linarith
  then have "m\<^sup>2 \<le> (1 / 5)\<^sup>2"
    by (simp add: power2_eq_square)
  then have "\<bar>m\<bar> \<le> \<bar>1 / 5 :: real\<bar>"
    by (simp only: abs_le_square_iff)
  then show "\<bar>m\<bar> \<le> 1 / 5" by simp
  from v1 assms b have "v\<^sup>2 \<le> 1 / 1600" by linarith
  then have "v\<^sup>2 \<le> (1 / 40)\<^sup>2"
    by (simp add: power2_eq_square)
  then have "\<bar>v\<bar> \<le> \<bar>1 / 40 :: real\<bar>"
    by (simp only: abs_le_square_iff)
  then show "\<bar>v\<bar> \<le> 1 / 40" by simp
qed

text \<open>
  A constructed controller, when canvas and container exist, is at rest or one frame away
  from a state at rest: the frame that \<^verbatim>\<open>init\<close> renders.
\<close>

lemma at_rest_cong:
  assumes "at_rest s" and "isHovering s' = isHovering s" and "mouseX s' = mouseX s"
    and "mouseY s' = mouseY s" and "targetMouseX s' = targetMouseX s"
    and "targetMouseY s' = targetMouseY s" and "velocityX s' = velocityX s"
    and "velocityY s' = velocityY s" and "mouseSensitivity s' = mouseSensitivity s"
    and "momentum s' = momentum s"
  shows "at_rest s'"
  using assms by (simp add: at_rest_def)

lemma setupWebGL_pointer:
  assumes "setupWebGL s h w = Inr (s', w')" and "at_rest s"
  shows "at_rest s'"
proof -
  have "isHovering s' = isHovering s \<and> mouseX s' = mouseX s \<and> mouseY s' = mouseY s \<and>
      targetMouseX s' = targetMouseX s \<and> targetMouseY s' = targetMouseY s \<and>
      velocityX s' = velocityX s \<and> velocityY s' = velocityY s \<and>
      mouseSensitivity s' = mouseSensitivity s \<and> momentum s' = momentum s"
    using assms(1)
    by (auto simp: setupWebGL_def resize_def Let_def split: if_splits option.splits sum.splits)
  with assms(2) show ?thesis by (simp add: at_rest_def)
qed

lemma setupMouseTracking_pointer:
  assumes "at_rest s"
  shows "at_rest (fst (setupMouseTracking s w))"
  using assms by (cases "container s") (simp_all add: setupMouseTracking_def at_rest_def)

lemma init_reachable:
  assumes "init s h w = Inr (s', w')" and "at_rest s"
  shows "at_rest s' \<or> (\<exists>s0. at_rest s0 \<and> s' = render s0 (host_draws h) (host_raf h))"
proof (cases "canvas s = None \<or> container s = None")
  case True
  with assms show ?thesis by (simp add: init_def)
next
  case False
  show ?thesis
  proof (cases "host_webgl h")
    case None
    with False assms show ?thesis by (auto simp: init_def)
  next
    case (Some g)
    define s1 where "s1 = s\<lparr>gl := Some g,
        sourceCanvas := Some \<lparr>raster_width = 300, raster_height = 150,
                              raster_fill = '''', raster_images = []\<rparr>,
        sourceContext := host_context2d h\<rparr>"
    have r1: "at_rest s1" using assms(2) by (simp add: s1_def at_rest_def)
    from assms(1) False Some obtain s2 w2 where
      two: "setupWebGL s1 h w = Inr (s2, w2)"
      and fin: "s' = render (fst (setupMouseTracking s2 w2)) (host_draws h) (host_raf h)"
      by (auto simp: init_def Let_def s1_def split: sum.splits prod.splits)
    from two r1 have "at_rest s2" by (rule setupWebGL_pointer)
    then have "at_rest (fst (setupMouseTracking s2 w2))" by (rule setupMouseTracking_pointer)
    with fin show ?thesis by blast
  qed
qed

lemma constructor_reachable:
  assumes "constructor sid h w = Inr (s, w')"
    and "host_canvas h \<noteq> None" and "host_container h \<noteq> None"
  shows "at_rest s \<or> (\<exists>s0. at_rest s0 \<and> s = render s0 (host_draws h) (host_raf h))"
proof -
  define s1 where "s1 = unassigned\<lparr>sectionId := sid, canvas := host_canvas h,
      container := host_container h, gl := None, program := None, texture := None,
      sourceCanvas := None, sourceContext := None, animationFrameId := None, time := 0,
      mouseX := 0.0, mouseY := 0.0, targetMouseX := 0.0, targetMouseY := 0.0,
      velocityX := 0.0, velocityY := 0.0, isHovering := False,
      curvature := 0.12, vignette := 0.74, scanlineIntensity := 0.5,
      chromaticAberration := 0.5, mouseSensitivity := 0.008, momentum := 0.85\<rparr>"
  have "at_rest s1" by (simp add: s1_def at_rest_def)
  moreover from assms have "init s1 h w = Inr (s, w')"
    by (simp add: constructor_def Let_def s1_def)
  ultimately show ?thesis by (intro init_reachable)
qed

lemma swing_run: "run hero swing = Some swung"
  by (simp add: swing_def swung_def hero_def at_right_edge_def page_rect_def calm_def
      mouseMoveHandler_def render_def idleGlitch_def momentumStep_def Let_def)

lemma at_rest_hero: "at_rest hero"
  by (simp add: at_rest_def hero_def)

lemma host_events_swing: "list_all host_event swing"
  by (simp add: swing_def inside_def at_right_edge_def page_rect_def calm_def
      unit_draws_def unit_draw_def)

text \<open>
  With a pointer that changes sides the smoothed offset passes the sensitivity itself, twice
  the extent of the target range.
\<close>

lemma sweep_run:
  "list_all host_event sweep \<and>
   map_option mouseX (run hero sweep)
     = Some (4245373065944062756071405636037888941895029367383
             / 524288000000000000000000000000000000000000000000000) \<and>
   mouseSensitivity hero
     < 4245373065944062756071405636037888941895029367383
       / 524288000000000000000000000000000000000000000000000"
  by (simp add: sweep_def hero_def at_left_edge_def at_right_edge_def page_rect_def calm_def
      inside_def unit_draws_def unit_draw_def
      mouseMoveHandler_def render_def idleGlitch_def momentumStep_def Let_def numeral_eq_Suc)

text \<open>
  Claim C4, as stated, keeps the smoothed offset within the bounds that
  \<^verbatim>\<open>mouseSensitivity\<close> implies, the range \<open>\<plusminus> mouseSensitivity / 2\<close> of the target.
  The offset follows the target like a damped spring and overshoots it: six frames after a
  re-entry at the right edge of the concrete page it is beyond 0.004.
\<close>

theorem offset_leaves_target_range_counterexample:
  "at_rest hero \<and> list_all host_event swing \<and>
   map_option mouseX (run hero swing) = Some (66755538820281 / 16000000000000000) \<and>
   mouseSensitivity hero / 2 < 66755538820281 / 16000000000000000"
  by (simp add: swing_run at_rest_hero host_events_swing) (simp add: swung_def hero_def)

text \<open>
  Claim C4, amended. Start from a controller at rest and let any sequence of
  \<^verbatim>\<open>mousemove\<close> events (pointer inside a container of positive size),
  \<^verbatim>\<open>mouseleave\<close> events and frames (random numbers in \<open>[0, 1)\<close>) happen. Then
  every event is handled, the target offset stays within \<open>\<plusminus> mouseSensitivity / 2\<close>, the
  smoothed offset stays within \<open>\<plusminus> 0.2\<close> and the velocity within \<open>\<plusminus> 0.025\<close> on each
  axis, and the next frame multiplies the velocity (after nudge and attraction) by the
  momentum factor 0.85.
\<close>

theorem pointer_state_bounded:
  assumes "at_rest s0" and "list_all host_event evs"
  shows "\<exists>s. run s0 evs = Some s \<and>
           mouseSensitivity s = 0.008 \<and> momentum s = 0.85 \<and>
           \<bar>targetMouseX s\<bar> \<le> mouseSensitivity s / 2 \<and>
           \<bar>targetMouseY s\<bar> \<le> mouseSensitivity s / 2 \<and>
           \<bar>mouseX s\<bar> \<le> 1 / 5 \<and> \<bar>mouseY s\<bar> \<le> 1 / 5 \<and>
           \<bar>velocityX s\<bar> \<le> 1 / 40 \<and> \<bar>velocityY s\<bar> \<le> 1 / 40 \<and>
           (\<forall>d raf. gl s \<noteq> None \<and> program s \<noteq> None \<longrightarrow>
              velocityX (render s d raf) =
                (velocityX (idleGlitch s d)
                   + (targetMouseX s - mouseX s) * (if isHovering s then 0.1 else 0.02)) * 0.85 \<and>
              velocityY (render s d raf) =
                (velocityY (idleGlitch s d)
                   + (targetMouseY s - mouseY s) * (if isHovering s then 0.1 else 0.02)) * 0.85)"
proof -
  from assms(1) have "settled s0" by (rule at_rest_settled)
  then obtain s where s: "run s0 evs = Some s" and inv: "settled s"
    using run_settled [OF _ assms(2)] by blast
  from inv have sens: "mouseSensitivity s = 0.008" and mu: "momentum s = 0.85"
    and tx: "\<bar>targetMouseX s\<bar> \<le> 0.004" and ty: "\<bar>targetMouseY s\<bar> \<le> 0.004"
    and ex: "energy (isHovering s) (velocityX s) (mouseX s) \<le> budget (isHovering s)"
    and ey: "energy (isHovering s) (velocityY s) (mouseY s) \<le> budget (isHovering s)"
    by (simp_all add: settled_def)
  have t: "\<bar>targetMouseX s\<bar> \<le> mouseSensitivity s / 2" "\<bar>targetMouseY s\<bar> \<le> mouseSensitivity s / 2"
    using tx ty by (simp_all add: sens)
  have damp: "velocityX (render s d raf) =
                (velocityX (idleGlitch s d)
                   + (targetMouseX s - mouseX s) * (if isHovering s then 0.1 else 0.02)) * 0.85 \<and>
              velocityY (render s d raf) =
                (velocityY (idleGlitch s d)
                   + (targetMouseY s - mouseY s) * (if isHovering s then 0.1 else 0.02)) * 0.85"
    if "gl s \<noteq> None \<and> program s \<noteq> None" for d raf
    using that render_velocityX [of s d raf] render_velocityY [of s d raf]
    by (simp only: mu) simp
  from s sens mu t energy_bounds [OF ex] energy_bounds [OF ey] damp
  show ?thesis by blast
qed

theorem pointer_state_bounded_witness:
  "at_rest hero \<and> list_all host_event swing \<and>
   (\<exists>s. run hero swing = Some s \<and>
      mouseX s = 66755538820281 / 16000000000000000 \<and>
      \<bar>targetMouseX s\<bar> \<le> mouseSensitivity s / 2 \<and>
      \<bar>mouseX s\<bar> \<le> 1 / 5 \<and> \<bar>velocityX s\<bar> \<le> 1 / 40 \<and>
      gl s \<noteq> None \<and> program s \<noteq> None \<and>
      velocityX (render s calm 8) =
        (velocityX (idleGlitch s calm)
           + (targetMouseX s - mouseX s) * (if isHovering s then 0.1 else 0.02)) * 0.85)"
proof -
  from pointer_state_bounded [OF at_rest_hero host_events_swing]
  have b: "\<bar>targetMouseX swung\<bar> \<le> mouseSensitivity swung / 2"
      "\<bar>mouseX swung\<bar> \<le> 1 / 5" "\<bar>velocityX swung\<bar> \<le> 1 / 40"
    and d: "gl swung \<noteq> None \<and> program swung \<noteq> None \<longrightarrow>
      velocityX (render swung calm 8) =
        (velocityX (idleGlitch swung calm)
           + (targetMouseX swung - mouseX swung) * (if isHovering swung then 0.1 else 0.02)) * 0.85"
    by (simp_all add: swing_run)
  have g: "gl swung \<noteq> None" "program swung \<noteq> None"
    and m: "mouseX swung = 66755538820281 / 16000000000000000"
    by (simp_all add: swung_def hero_def)
  from d g have "velocityX (render swung calm 8) =
        (velocityX (idleGlitch swung calm)
           + (targetMouseX swung - mouseX swung) * (if isHovering swung then 0.1 else 0.02)) * 0.85"
    by simp
  with b g m show ?thesis
    by (simp add: swing_run at_rest_hero host_events_swing)
qed

end
